theory Spec2Isabelle
  imports Main "HOL-Library.Sublist"
begin

section \<open>JavaScript strings\<close>

text \<open>
  Strings are character lists. The functions below are the string methods the server
  calls: \<^verbatim>\<open>includes\<close>, \<^verbatim>\<open>indexOf\<close>, \<^verbatim>\<open>substring\<close>, \<^verbatim>\<open>trim\<close>;
  \<^verbatim>\<open>startsWith\<close> is \<open>prefix\<close>. Indices are \<open>int\<close>, because \<^verbatim>\<open>indexOf\<close>
  answers \<open>-1\<close> and \<^verbatim>\<open>substring\<close> accepts it. Characters are the 8-bit ones of HOL:
  \<open>is_space\<close> holds the white space of JavaScript among them.
\<close>

fun js_includes :: "string \<Rightarrow> string \<Rightarrow> bool" where
  "js_includes [] p = (p = [])"
| "js_includes (c # cs) p = (prefix p (c # cs) \<or> js_includes cs p)"

fun find_at :: "string \<Rightarrow> string \<Rightarrow> nat \<Rightarrow> int" where
  "find_at [] p k = (if p = [] then int k else - 1)"
| "find_at (c # cs) p k = (if prefix p (c # cs) then int k else find_at cs p (Suc k))"

definition indexOf :: "string \<Rightarrow> string \<Rightarrow> int" where
  "indexOf s p = find_at s p 0"

definition indexOf_from :: "string \<Rightarrow> string \<Rightarrow> int \<Rightarrow> int" where
  "indexOf_from s p i =
     (let n = nat (max 0 (min i (int (length s)))) in find_at (drop n s) p n)"

definition substring :: "string \<Rightarrow> int \<Rightarrow> int \<Rightarrow> string" where
  "substring s a b =
     (let n = int (length s);
          a' = max 0 (min a n);
          b' = max 0 (min b n);
          lo = min a' b';
          hi = max a' b'
      in take (nat (hi - lo)) (drop (nat lo) s))"

definition substring_from :: "string \<Rightarrow> int \<Rightarrow> string" where
  "substring_from s a = drop (nat (max 0 a)) s"

definition is_space :: "char \<Rightarrow> bool" where
  "is_space c = (c \<in> set [CHR 0x09, CHR 0x0A, CHR 0x0B, CHR 0x0C, CHR 0x0D, CHR 0x20, CHR 0xA0])"

definition trim :: "string \<Rightarrow> string" where
  "trim s = rev (dropWhile is_space (rev (dropWhile is_space s)))"

text \<open>
  A value that may be \<^verbatim>\<open>undefined\<close> or \<^verbatim>\<open>null\<close> is an option. \<open>truthy\<close> is the
  test that \<^verbatim>\<open>if (x)\<close>, \<^verbatim>\<open>x || y\<close> and \<^verbatim>\<open>x ? a : b\<close> make on such a string;
  \<open>tmpl_null\<close> and \<open>tmpl_undefined\<close> are what a template literal prints for it.
\<close>

fun truthy :: "string option \<Rightarrow> bool" where
  "truthy None = False"
| "truthy (Some s) = (s \<noteq> [])"

fun tmpl_null :: "string option \<Rightarrow> string" where
  "tmpl_null None = ''null''"
| "tmpl_null (Some s) = s"

fun tmpl_undefined :: "string option \<Rightarrow> string" where
  "tmpl_undefined None = ''undefined''"
| "tmpl_undefined (Some s) = s"

section \<open>Process state\<close>

text \<open>
  The server keeps everything in module-level variables. \<open>globals\<close> holds those of
  \<^verbatim>\<open>chat.js\<close> and of the socket chat module, and the events emitted to Socket.IO rooms
  so far. Timestamps (\<^verbatim>\<open>new Date()\<close>) are left out of messages, sessions and events.
  An \<^verbatim>\<open>isComplete\<close> that is missing counts as \<open>False\<close>: the code only ever tests
  \<^verbatim>\<open>!msg.isComplete\<close>.
\<close>

datatype role = User | Assistant

record message =
  role :: role
  content :: string
  thinkingContent :: "string option"
  hasThinking :: bool
  chat_id :: "string option"
  msg_session_id :: string
  msg_user_id :: "string option"
  message_type :: string
  isComplete :: bool
  token_count :: nat
  total_tokens :: "nat option"

record session =
  session_id :: string
  title :: string
  user_id :: "string option"
  current_chat_id :: "string option"
  total_chats :: nat
  source :: "string option"
  titleSource :: "string option"

record token_buffer =
  tokens :: "string list"
  fullContent :: string
  model :: string
  buf_thinkingContent :: string
  isInThinking :: bool
  hasThinkingStarted :: bool
  isInResponseTags :: bool
  hasResponseStarted :: bool
  pendingThinkingTokens :: "string list"
  thinkingMessageId :: "string option"

record consumer =
  consumerTag :: string

record stream_context =
  ctx_modelId :: "string option"
  ctx_chatId :: string
  ctx_instanceId :: "string option"
  ctx_sessionId :: string
  ctx_userId :: string
  ctx_consumerTag :: string

datatype event =
    Stream (ev_content: string) (ev_chat: string) (ev_session: string)
      (ev_messageId: "string option") (ev_isPendingThinking: bool)
      (ev_instance: "string option") (ev_token_number: "nat option")
  | MoveToThinking string string string "string option" "string list"
  | ThinkingComplete string string
  | Complete string "string option" "string option" "string option" "string option" "nat option"
  | Error string string string string
  | CleanupGeneration "string option" string "string option" "string option" string

type_synonym emission = "string \<times> event"

record globals =
  globalSessionNames :: "session list"
  globalChatHistory :: "string \<rightharpoonup> message list"
  sessionMessageCounts :: "string \<rightharpoonup> nat"
  sessionCacheTimestamp :: "string \<rightharpoonup> nat"
  globalModelList :: "(string \<times> string) list"
  modelListCacheTimestamp :: "nat option"
  foreignLastSessionIds :: "string \<rightharpoonup> nat"
  sessionCounters :: "string \<rightharpoonup> nat"
  currentUserId :: "string option"
  thinkingContentBuffer :: "string \<rightharpoonup> string"
  globalPersonalizedFiles :: "string \<rightharpoonup> string list"
  tokenBuffers :: "string \<rightharpoonup> token_buffer"
  globalActiveConsumer :: "consumer option"
  globalConsumerCount :: nat
  globalStreamingSessions :: "string \<rightharpoonup> stream_context"
  emitted :: "emission list"

text \<open>The values the module-level variables are initialised with.\<close>

definition init_globals :: globals where
  "init_globals =
     \<lparr> globalSessionNames = [], globalChatHistory = Map.empty,
       sessionMessageCounts = Map.empty, sessionCacheTimestamp = Map.empty,
       globalModelList = [], modelListCacheTimestamp = None,
       foreignLastSessionIds = Map.empty, sessionCounters = Map.empty,
       currentUserId = None, thinkingContentBuffer = Map.empty,
       globalPersonalizedFiles = Map.empty, tokenBuffers = Map.empty,
       globalActiveConsumer = None, globalConsumerCount = 0,
       globalStreamingSessions = Map.empty, emitted = [] \<rparr>"

definition emit :: "string \<Rightarrow> event \<Rightarrow> globals \<Rightarrow> globals" where
  "emit room ev g = g\<lparr>emitted := emitted g @ [(room, ev)]\<rparr>"

section \<open>Stop path\<close>

text \<open>
  \<^verbatim>\<open>removeIncompleteChatFromHistory(userId, sessionId, chatId)\<close>: the transcript under
  \<^verbatim>\<open>userId_sessionId\<close> loses every message of the chat that is not complete.
\<close>

definition shouldRemove :: "string \<Rightarrow> message \<Rightarrow> bool" where
  "shouldRemove chatId msg = (chat_id msg = Some chatId \<and> \<not> isComplete msg)"

definition removeIncompleteChatFromHistory ::
  "string option \<Rightarrow> string \<Rightarrow> string \<Rightarrow> globals \<Rightarrow> globals" where
  "removeIncompleteChatFromHistory userId sessionId chatId g =
     (let historyKey = tmpl_null userId @ ''_'' @ sessionId in
      case globalChatHistory g historyKey of
        None \<Rightarrow> g
      | Some msgs \<Rightarrow>
          g\<lparr>globalChatHistory :=
              (globalChatHistory g)(historyKey \<mapsto> filter (\<lambda>msg. \<not> shouldRemove chatId msg) msgs)\<rparr>)"

definition cleanupTokenBuffer :: "string \<Rightarrow> globals \<Rightarrow> globals" where
  "cleanupTokenBuffer sessionKey g = g\<lparr>tokenBuffers := (tokenBuffers g)(sessionKey := None)\<rparr>"

text \<open>
  The tag the socket handler builds for the consumer of one chat:
  \<^verbatim>\<open>socket_${socket.id}_${finalSessionId}_${finalChatId}_${Date.now()}\<close>.
\<close>

definition make_consumerTag :: "string \<Rightarrow> string \<Rightarrow> string \<Rightarrow> string \<Rightarrow> string" where
  "make_consumerTag socket_id finalSessionId finalChatId now =
     ''socket_'' @ socket_id @ ''_'' @ finalSessionId @ ''_'' @ finalChatId @ ''_'' @ now"

text \<open>
  \<^verbatim>\<open>rabbitmq.cancelConsumer\<close> belongs to the broker module; all the stop path sees of it
  is whether the call returns or throws.
\<close>

datatype cancel_result = CancelReturns | CancelThrows

definition forceCleanupConsumerForSession ::
  "cancel_result \<Rightarrow> string option \<Rightarrow> string \<Rightarrow> string option \<Rightarrow> globals \<Rightarrow> bool \<times> globals" where
  "forceCleanupConsumerForSession cancel userId sessionId chatId g =
     (case globalActiveConsumer g of
        None \<Rightarrow> (False, g)
      | Some active \<Rightarrow>
          let tag = consumerTag active;
              sessionPattern = tmpl_null userId @ ''_'' @ sessionId;
              matchesSession = js_includes tag sessionPattern;
              matchesChat =
                (if truthy chatId
                 then js_includes tag (tmpl_null userId @ ''_'' @ sessionId @ ''_'' @ the chatId)
                 else False)
          in if matchesSession \<or> matchesChat then
               (case cancel of
                  CancelThrows \<Rightarrow> (False, g)
                | CancelReturns \<Rightarrow>
                    let g1 = g\<lparr>globalActiveConsumer := None\<rparr>;
                        g2 = (if truthy chatId
                              then removeIncompleteChatFromHistory userId sessionId (the chatId) g1
                              else g1);
                        sessionKey = tmpl_null userId @ ''_'' @ sessionId;
                        g3 = g2\<lparr>globalStreamingSessions :=
                                  (globalStreamingSessions g2)(sessionKey := None)\<rparr>
                    in (True, cleanupTokenBuffer sessionKey g3))
             else (False, g))"

text \<open>
  \<^verbatim>\<open>POST /stop\<close>. The call to Upstream answers with a success status, with another
  status, or throws (a network error, or the abort after 100 s). The body of a success
  reply is read with \<^verbatim>\<open>response.json()\<close>: it is not JSON, which throws at once; it is
  \<^verbatim>\<open>null\<close>, and then \<^verbatim>\<open>data.status\<close> throws once the cleanup of the success branch has
  run; or it is any other value, of which the handler reads \<^verbatim>\<open>status\<close> and \<^verbatim>\<open>message\<close>
  (a number, a string or an array has neither). Whatever throws inside the inner
  \<^verbatim>\<open>try\<close> is caught by the branch that runs the fallback cleanup. The answer of the
  broker to \<^verbatim>\<open>cancelConsumer\<close> is the same for the calls of one request. In the response,
  \<open>resp_status\<close> is the \<^verbatim>\<open>status\<close> field when it holds a string and \<open>upstream_status\<close> when
  it holds the status code of Upstream's reply.
\<close>

record stop_request =
  req_user_id :: "string option"
  req_session_id :: "string option"
  req_chat_id :: "string option"
  req_instance_id :: "string option"

record stop_data =
  data_status :: "string option"
  data_message :: "string option"

datatype stop_body = BodyData stop_data | BodyNull | BodyNotJson

datatype upstream_reply = ReplyOk stop_body | ReplyNotOk nat | FetchThrows

record stop_response =
  http_status :: nat
  success :: bool
  resp_status :: "string option"
  upstream_status :: "nat option"
  resp_message :: "string option"
  cleanup_completed :: "bool option"
  resp_error :: "string option"

definition stop_finalUserId :: "stop_request \<Rightarrow> globals \<Rightarrow> string option" where
  "stop_finalUserId req g = (if truthy (req_user_id req) then req_user_id req else currentUserId g)"

definition stop_roomId :: "string option \<Rightarrow> stop_request \<Rightarrow> string" where
  "stop_roomId finalUserId req =
     (if truthy (req_instance_id req)
      then ''chat_'' @ tmpl_null finalUserId @ ''_'' @ tmpl_undefined (req_session_id req) @ ''_''
             @ tmpl_undefined (req_chat_id req) @ ''_'' @ tmpl_undefined (req_instance_id req)
      else if truthy (req_chat_id req)
      then ''chat_'' @ tmpl_null finalUserId @ ''_'' @ tmpl_undefined (req_session_id req) @ ''_''
             @ tmpl_undefined (req_chat_id req)
      else ''chat_'' @ tmpl_null finalUserId @ ''_'' @ tmpl_undefined (req_session_id req))"

text \<open>
  The cleanup both branches run when the request names a session: the stop-path matcher,
  then \<^verbatim>\<open>complete\<close> and \<^verbatim>\<open>cleanup-generation\<close> to the room.
\<close>

definition stop_cleanup ::
  "cancel_result \<Rightarrow> string option \<Rightarrow> string \<Rightarrow> string \<Rightarrow> string \<Rightarrow> stop_request \<Rightarrow> globals
     \<Rightarrow> globals" where
  "stop_cleanup cancel finalUserId text completion_type reason req g =
     (if truthy (req_session_id req) then
        let roomId = stop_roomId finalUserId req;
            g1 = snd (forceCleanupConsumerForSession cancel finalUserId
                        (the (req_session_id req)) (req_chat_id req) g);
            g2 = emit roomId
                   (Complete text (req_chat_id req) (req_session_id req) (req_instance_id req)
                      (Some completion_type) (Some 0)) g1
        in emit roomId
             (CleanupGeneration finalUserId (the (req_session_id req)) (req_chat_id req)
                (req_instance_id req) reason) g2
      else g)"

definition or_else :: "string option \<Rightarrow> string \<Rightarrow> string" where
  "or_else x d = (if truthy x then the x else d)"

text \<open>The \<^verbatim>\<open>catch\<close> branch of the call to Upstream, entered in state \<open>g\<close>.\<close>

definition stop_fallback ::
  "cancel_result \<Rightarrow> string option \<Rightarrow> stop_request \<Rightarrow> globals \<Rightarrow> stop_response \<times> globals" where
  "stop_fallback cancel finalUserId req g =
     (\<lparr> http_status = 200, success = True, resp_status = Some ''timeout_cleanup'',
         upstream_status = None,
         resp_message = Some ''Foreign server timed out, but local cleanup completed'',
         cleanup_completed = Some True, resp_error = None \<rparr>,
      stop_cleanup cancel finalUserId ''Generation stopped (server timeout)'' ''timeout_stopped''
        ''stop_timeout'' req g)"

definition stop_endpoint ::
  "upstream_reply \<Rightarrow> cancel_result \<Rightarrow> stop_request \<Rightarrow> globals \<Rightarrow> stop_response \<times> globals" where
  "stop_endpoint reply cancel req g =
     (let finalUserId = stop_finalUserId req g in
      case reply of
        FetchThrows \<Rightarrow> stop_fallback cancel finalUserId req g
      | ReplyNotOk code \<Rightarrow>
          (\<lparr> http_status = 500, success = False, resp_status = None,
              upstream_status = Some code, resp_message = None, cleanup_completed = None,
              resp_error = Some ''Failed to stop generation on foreign server'' \<rparr>,
           g)
      | ReplyOk BodyNotJson \<Rightarrow> stop_fallback cancel finalUserId req g
      | ReplyOk BodyNull \<Rightarrow>
          stop_fallback cancel finalUserId req
            (stop_cleanup cancel finalUserId ''Generation stopped by user'' ''user_stopped''
               ''stop_requested'' req g)
      | ReplyOk (BodyData d) \<Rightarrow>
          (\<lparr> http_status = 200, success = True,
              resp_status = Some (or_else (data_status d) ''success''),
              upstream_status = None,
              resp_message = Some (or_else (data_message d) ''Generation stopped successfully''),
              cleanup_completed = Some True, resp_error = None \<rparr>,
           stop_cleanup cancel finalUserId ''Generation stopped by user'' ''user_stopped''
             ''stop_requested'' req g))"

section \<open>Session catalog\<close>

text \<open>
  Session ids are decimal strings. The window sorts by
  \<^verbatim>\<open>parseInt(id.replace(/\D/g, '')) || 0\<close>: the number its digits spell, \<open>0\<close> when it has
  none. Numbers are \<open>nat\<close> here; the rounding of doubles above \<open>2^53\<close> is not modelled.
\<close>

definition is_digit :: "char \<Rightarrow> bool" where
  "is_digit c = (c \<in> set ''0123456789'')"

definition digit_val :: "char \<Rightarrow> nat" where
  "digit_val c = of_char c - 48"

definition parse_digits :: "string \<Rightarrow> nat" where
  "parse_digits s = foldl (\<lambda>n c. 10 * n + digit_val c) 0 s"

definition session_num :: "string \<Rightarrow> nat" where
  "session_num sid = parse_digits (filter is_digit sid)"

definition digit_char :: "nat \<Rightarrow> char" where
  "digit_char d = char_of (48 + d)"

fun nat_to_dec :: "nat \<Rightarrow> string" where
  "nat_to_dec n =
     (if n < 10 then [digit_char n] else nat_to_dec (n div 10) @ [digit_char (n mod 10)])"

declare nat_to_dec.simps [simp del]

record window_result =
  deletedSession :: "session option"
  shouldNotifyUser :: bool
  isWarning :: bool
  wr_message :: "string option"
  sessionCount :: nat

definition title_or_id :: "session \<Rightarrow> string" where
  "title_or_id s = (if title s \<noteq> [] then title s else session_id s)"

text \<open>
  \<^verbatim>\<open>manageSessionWindow(userId)\<close>. \<^verbatim>\<open>Array.prototype.sort\<close> is stable, as \<open>sort_key\<close> is;
  the object keys built from a \<^verbatim>\<open>null\<close> user read \<^verbatim>\<open>null_...\<close>. The thinking buffer entry
  is deleted only when it is a non-empty string.
\<close>

definition manageSessionWindow :: "string option \<Rightarrow> globals \<Rightarrow> window_result \<times> globals" where
  "manageSessionWindow userId g =
     (let finalUserId = (if truthy userId then userId else currentUserId g);
          userSessions = filter (\<lambda>s. user_id s = finalUserId) (globalSessionNames g)
      in if length userSessions = 9 then
           (\<lparr> deletedSession = None, shouldNotifyUser = True, isWarning = True,
               wr_message = Some (''This is your 10th session. Creating additional sessions will ''
                 @ ''automatically remove the oldest ones to maintain the 10-session limit.''),
               sessionCount = length userSessions + 1 \<rparr>, g)
         else if length userSessions \<ge> 25 then
           (let sortedSessions = sort_key (\<lambda>s. session_num (session_id s)) userSessions;
                oldestSession = hd sortedSessions;
                oldestHistoryKey = tmpl_null finalUserId @ ''_'' @ session_id oldestSession
            in (\<lparr> deletedSession = Some oldestSession, shouldNotifyUser = True, isWarning = False,
                  wr_message = Some (''Session \"'' @ title_or_id oldestSession
                    @ ''\" was automatically deleted to maintain the 10-session limit.''),
                  sessionCount = 10 \<rparr>,
                g\<lparr> globalSessionNames :=
                     filter (\<lambda>s. \<not> (user_id s = finalUserId
                                      \<and> session_id s = session_id oldestSession))
                       (globalSessionNames g),
                   globalChatHistory := (globalChatHistory g)(oldestHistoryKey := None),
                   sessionMessageCounts := (sessionMessageCounts g)(oldestHistoryKey := None),
                   thinkingContentBuffer :=
                     (if truthy (thinkingContentBuffer g oldestHistoryKey)
                      then (thinkingContentBuffer g)(oldestHistoryKey := None)
                      else thinkingContentBuffer g) \<rparr>))
         else
           (\<lparr> deletedSession = None, shouldNotifyUser = False, isWarning = False,
               wr_message = None, sessionCount = length userSessions + 1 \<rparr>, g))"

text \<open>
  \<^verbatim>\<open>getNextSessionId(userId)\<close>: the counter starts at the last session id Upstream reported
  at login (kept here as the number \<^verbatim>\<open>parseInt\<close> reads from it, \<open>0\<close> when there is none).
\<close>

definition getNextSessionId :: "string option \<Rightarrow> globals \<Rightarrow> string \<times> globals" where
  "getNextSessionId userId g =
     (let finalUserId = tmpl_null (if truthy userId then userId else currentUserId g);
          counter = (case sessionCounters g finalUserId of
                       None \<Rightarrow> (case foreignLastSessionIds g finalUserId of None \<Rightarrow> 0 | Some n \<Rightarrow> n)
                     | Some c \<Rightarrow>
                         if c = 0
                         then (case foreignLastSessionIds g finalUserId of None \<Rightarrow> 0 | Some n \<Rightarrow> n)
                         else c)
      in (nat_to_dec (counter + 1),
          g\<lparr>sessionCounters := (sessionCounters g)(finalUserId \<mapsto> counter + 1)\<rparr>))"

text \<open>\<^verbatim>\<open>POST /chatsession\<close>: mint a session id and put the new session at the front.\<close>

record chatsession_request =
  cs_user_id :: "string option"
  cs_title :: "string option"

record chatsession_response =
  cs_session_id :: string
  cs_session_title :: string
  cs_session_count :: nat
  window_management :: "window_result option"

definition stored_user :: "string option \<Rightarrow> globals \<Rightarrow> string option" where
  "stored_user u g = (if \<not> truthy u \<or> u = Some ''default_user'' then currentUserId g else u)"

definition chatsession :: "chatsession_request \<Rightarrow> globals \<Rightarrow> chatsession_response \<times> globals" where
  "chatsession req g =
     (let user = stored_user (cs_user_id req) g;
          currentSessionCount = length (filter (\<lambda>s. user_id s = user) (globalSessionNames g));
          (windowResult, g1) = manageSessionWindow user g;
          (sessionId, g2) = getNextSessionId user g1;
          sessionTitle = or_else (cs_title req) (''Chat Session '' @ sessionId);
          newSession = \<lparr> session_id = sessionId, title = sessionTitle, user_id = user,
                         current_chat_id = None, total_chats = 0, source = Some ''local'',
                         titleSource = None \<rparr>
      in (\<lparr> cs_session_id = sessionId, cs_session_title = sessionTitle,
            cs_session_count = (if sessionCount windowResult \<noteq> 0 then sessionCount windowResult
                                else currentSessionCount + 1),
            window_management = (if shouldNotifyUser windowResult then Some windowResult else None) \<rparr>,
          g2\<lparr>globalSessionNames := newSession # globalSessionNames g2\<rparr>))"

section \<open>Admission of a prompt\<close>

text \<open>
  \<^verbatim>\<open>POST /chat\<close>, from the request to the upsert of the session in the catalog: the checks,
  the count, the user message, the catalog entry. What the handler writes to the HTTP
  response (the replay of the transcript) is not state and is left out.
\<close>

record chat_request =
  cr_user_id :: "string option"
  cr_chat_id :: "string option"
  cr_session_id :: "string option"
  cr_prompt :: "string option"

datatype admission = MissingFields | LimitReached | Admitted

fun find_index :: "('a \<Rightarrow> bool) \<Rightarrow> 'a list \<Rightarrow> nat option" where
  "find_index P [] = None"
| "find_index P (x # xs) =
     (if P x then Some 0 else (case find_index P xs of None \<Rightarrow> None | Some i \<Rightarrow> Some (Suc i)))"

definition chat_upsert_session :: "string option \<Rightarrow> string \<Rightarrow> string option \<Rightarrow> session list \<Rightarrow> session list" where
  "chat_upsert_session user sid chat names =
     (case find_index (\<lambda>s. session_id s = sid \<and> user_id s = user) names of
        None \<Rightarrow>
          \<lparr> session_id = sid, title = ''Chat Session '' @ sid, user_id = user,
            current_chat_id = chat, total_chats = 1, source = Some ''local'',
            titleSource = None \<rparr> # names
      | Some i \<Rightarrow>
          names[i := (names ! i)\<lparr>current_chat_id := chat, total_chats := total_chats (names ! i) + 1\<rparr>])"

definition chat_sessionKey :: "chat_request \<Rightarrow> globals \<Rightarrow> string" where
  "chat_sessionKey req g =
     tmpl_null (stored_user (cr_user_id req) g) @ ''_'' @ tmpl_undefined (cr_session_id req)"

definition currentCount :: "chat_request \<Rightarrow> globals \<Rightarrow> nat" where
  "currentCount req g =
     (case sessionMessageCounts g (chat_sessionKey req g) of None \<Rightarrow> 0 | Some n \<Rightarrow> n)"

definition chat_begin :: "chat_request \<Rightarrow> globals \<Rightarrow> admission \<times> globals" where
  "chat_begin req g =
     (let user = stored_user (cr_user_id req) g in
      if \<not> truthy user \<or> \<not> truthy (cr_session_id req) \<or> \<not> truthy (cr_prompt req)
      then (MissingFields, g)
      else
        let sid = the (cr_session_id req);
            sessionKey = chat_sessionKey req g
        in if currentCount req g \<ge> 15 then (LimitReached, g)
           else
             let prior = (case globalChatHistory g sessionKey of None \<Rightarrow> [] | Some ms \<Rightarrow> ms);
                 userMessage = \<lparr> role = User, content = the (cr_prompt req),
                                 thinkingContent = None, hasThinking = False,
                                 chat_id = cr_chat_id req, msg_session_id = sid,
                                 msg_user_id = user, message_type = ''prompt'',
                                 isComplete = False, token_count = 0, total_tokens = None \<rparr>
             in (Admitted,
                 g\<lparr> sessionMessageCounts :=
                      (sessionMessageCounts g)(sessionKey \<mapsto> currentCount req g + 1),
                    globalChatHistory := (globalChatHistory g)(sessionKey \<mapsto> prior @ [userMessage]),
                    globalSessionNames :=
                      chat_upsert_session user sid (cr_chat_id req) (globalSessionNames g) \<rparr>))"

section \<open>Session-index sync\<close>

text \<open>
  The \<^verbatim>\<open>/sessionName\<close> consumer receives the list Upstream publishes, in one of three
  shapes, and reduces it to pairs of session id and title. The merge runs through a
  JavaScript \<^verbatim>\<open>Map\<close> keyed by session id: an association list in insertion order, where
  setting a key that is present replaces the value in place.
\<close>

datatype index_payload =
    PairArray "(string \<times> string) list"
  | UserObjectArray "(string option \<times> (string \<times> string) list option) list"
  | UserObject "string option" "(string \<times> string) list option"

text \<open>
  An object of the payload has the fields \<^verbatim>\<open>user_id\<close> and \<^verbatim>\<open>sessions\<close>, either of which
  may be missing (\<open>None\<close>); a session is listed as a pair of id and title or as an object
  with \<^verbatim>\<open>s_id\<close> and \<^verbatim>\<open>s_name\<close>, both read as the pair. The array of objects is read only
  when its first element has a \<^verbatim>\<open>user_id\<close> and \<^verbatim>\<open>sessions\<close>, and then at the first
  object whose \<^verbatim>\<open>user_id\<close> is the user's.
\<close>

fun transformedSessions :: "string \<Rightarrow> index_payload \<Rightarrow> (string \<times> string) list" where
  "transformedSessions user (PairArray ps) = ps"
| "transformedSessions user (UserObjectArray []) = []"
| "transformedSessions user (UserObjectArray (first # rest)) =
     (if truthy (fst first) \<and> snd first \<noteq> None then
        (case find (\<lambda>item. fst item = Some user) (first # rest) of
           None \<Rightarrow> []
         | Some userSession \<Rightarrow> (case snd userSession of None \<Rightarrow> [] | Some ss \<Rightarrow> ss))
      else [])"
| "transformedSessions user (UserObject u sessions) =
     (if u = Some user then (case sessions of None \<Rightarrow> [] | Some ss \<Rightarrow> ss) else [])"

fun map_set :: "'k \<Rightarrow> 'v \<Rightarrow> ('k \<times> 'v) list \<Rightarrow> ('k \<times> 'v) list" where
  "map_set k v [] = [(k, v)]"
| "map_set k v ((k', v') # kvs) =
     (if k' = k then (k, v) # kvs else (k', v') # map_set k v kvs)"

text \<open>The map's values: the session, and the \<^verbatim>\<open>originalSource\<close> recorded for it.\<close>

type_synonym session_map = "(string \<times> session \<times> string option) list"

definition add_existing :: "session_map \<Rightarrow> session \<Rightarrow> session_map" where
  "add_existing m s = map_set (session_id s) (s, source s) m"

definition add_rabbit :: "string \<Rightarrow> session_map \<Rightarrow> string \<times> string \<Rightarrow> session_map" where
  "add_rabbit user m p =
     (case map_of m (fst p) of
        None \<Rightarrow>
          map_set (fst p)
            (\<lparr> session_id = fst p, title = snd p, user_id = Some user, current_chat_id = None,
               total_chats = 0, source = Some ''rabbitmq'', titleSource = Some ''rabbitmq'' \<rparr>,
             None) m
      | Some (existing, originalSource) \<Rightarrow>
          let oldSource = (if truthy originalSource then originalSource else source existing) in
          map_set (fst p)
            (existing\<lparr> title := snd p,
                       source := Some (if oldSource = Some ''local''
                                       then ''local_updated_from_rabbitmq'' else ''rabbitmq''),
                       titleSource := Some ''rabbitmq'' \<rparr>,
             originalSource) m)"

definition deduplicatedSessions :: "string \<Rightarrow> session list \<Rightarrow> (string \<times> string) list \<Rightarrow> session list" where
  "deduplicatedSessions user currentUserSessions transformed =
     map (\<lambda>kv. fst (snd kv))
       (foldl (add_rabbit user) (foldl add_existing [] currentUserSessions) transformed)"

definition sessionName_sync :: "string \<Rightarrow> index_payload \<Rightarrow> globals \<Rightarrow> globals" where
  "sessionName_sync user payload g =
     (let transformed = transformedSessions user payload in
      if transformed \<noteq> [] then
        let currentUserSessions = filter (\<lambda>s. user_id s = Some user) (globalSessionNames g);
            dedup = deduplicatedSessions user currentUserSessions transformed
        in g\<lparr>globalSessionNames :=
               dedup @ filter (\<lambda>s. user_id s \<noteq> Some user) (globalSessionNames g)\<rparr>
      else g)"

text \<open>
  \<^verbatim>\<open>POST /sessionName\<close>. A request is served from the catalog, without asking Upstream,
  when the user has sessions there and one of them has the source \<^verbatim>\<open>rabbitmq\<close>; it then
  only records the time. Otherwise the consumer above is started and handles the payload
  that is delivered (\<open>None\<close>: nothing arrives within 30 s).
\<close>

definition served_from_cache :: "string \<Rightarrow> globals \<Rightarrow> bool" where
  "served_from_cache user g =
     (let userGlobalSessions = filter (\<lambda>s. user_id s = Some user) (globalSessionNames g);
          hasForeignServerData = list_ex (\<lambda>s. source s = Some ''rabbitmq'') userGlobalSessions
      in userGlobalSessions \<noteq> [] \<and> hasForeignServerData)"

definition sessionName_endpoint :: "nat \<Rightarrow> index_payload option \<Rightarrow> globals \<Rightarrow> globals" where
  "sessionName_endpoint now delivered g =
     (if \<not> truthy (currentUserId g) then g
      else
        let user = the (currentUserId g) in
        if served_from_cache user g
        then g\<lparr>sessionCacheTimestamp := (sessionCacheTimestamp g)(user \<mapsto> now)\<rparr>
        else (case delivered of
                None \<Rightarrow> g
              | Some payload \<Rightarrow> sessionName_sync user payload g))"

section \<open>Logout\<close>

text \<open>\<^verbatim>\<open>flushAllGlobalVariables()\<close>, which the logout endpoint calls.\<close>

definition flushAllGlobalVariables :: "globals \<Rightarrow> globals" where
  "flushAllGlobalVariables g =
     g\<lparr> globalSessionNames := [], globalChatHistory := Map.empty,
        sessionMessageCounts := Map.empty, sessionCacheTimestamp := Map.empty,
        foreignLastSessionIds := Map.empty, sessionCounters := Map.empty,
        currentUserId := None, thinkingContentBuffer := Map.empty,
        globalModelList := [], modelListCacheTimestamp := None,
        globalPersonalizedFiles := Map.empty \<rparr>"

section \<open>Thinking parser\<close>

text \<open>
  \<^verbatim>\<open>MODEL_TYPES\<close>: for each model id or name, whether the model marks its reasoning, and
  the tags around the reasoning and around the answer.
\<close>

record model_config =
  supports_thinking :: bool
  thinking_start :: string
  thinking_end :: string
  response_start :: string
  response_end :: string

definition plain_model :: model_config where
  "plain_model = \<lparr> supports_thinking = False, thinking_start = [], thinking_end = [],
                    response_start = [], response_end = [] \<rparr>"

definition think_model :: model_config where
  "think_model = \<lparr> supports_thinking = True, thinking_start = ''<think>'',
                    thinking_end = ''</think>'', response_start = [], response_end = [] \<rparr>"

definition gpt_oss_model :: model_config where
  "gpt_oss_model = \<lparr> supports_thinking = True,
                      thinking_start = ''<|channel|>analysis<|message|>'',
                      thinking_end = ''<|end|>'',
                      response_start = ''<|start|>assistant<|channel|>final<|message|>'',
                      response_end = ''<|end|>'' \<rparr>"

definition MODEL_TYPES :: "string \<rightharpoonup> model_config" where
  "MODEL_TYPES = map_of
     [(''1'', plain_model), (''2'', gpt_oss_model), (''3'', plain_model), (''4'', plain_model),
      (''6'', plain_model), (''7'', think_model), (''8'', think_model), (''9'', plain_model),
      (''gpt-oss-20b'', gpt_oss_model),
      (''DeepSeek-R1-Distill-Llama-8B'', think_model),
      (''DeepSeek-R1-Distill-Qwen-7B'', think_model),
      (''Qwen-1.5B-QuickChat'', plain_model),
      (''Qwen3-8B'', think_model), (''Qwen3-8B-UD'', think_model),
      (''Llama-3.1-8B-Instruct-UD'', plain_model), (''phi-4'', plain_model),
      (''Ministral-8B-Instruct-2410'', plain_model),
      (''Llama-3.2-1B-Instruct'', plain_model)]"

definition to_lower :: "char \<Rightarrow> char" where
  "to_lower c =
     (let n = (of_char c :: nat) in
      if (65 \<le> n \<and> n \<le> 90) \<or> (192 \<le> n \<and> n \<le> 222 \<and> n \<noteq> 215) then char_of (n + 32) else c)"

definition modelMappings :: "(string \<times> string) list" where
  "modelMappings =
     [(''1'', ''Llama-3.1-8B-Instruct-UD''), (''2'', ''gpt-oss-20b''),
      (''3'', ''Qwen-1.5B-QuickChat''), (''4'', ''InterVL-Vision-LLM''),
      (''gpt-oss'', ''gpt-oss-20b''), (''qwen'', ''Qwen-1.5B-QuickChat''),
      (''llama'', ''Llama-3.1-8B-Instruct-UD''), (''Vission-LLM'', ''InterVL-Vision-LLM'')]"

definition getModelNameFromId :: "string option \<Rightarrow> string" where
  "getModelNameFromId modelId =
     (if \<not> truthy modelId then ''unknown''
      else
        let modelIdStr = the modelId in
        if MODEL_TYPES modelIdStr \<noteq> None then modelIdStr
        else (case find (\<lambda>kv. js_includes (map to_lower modelIdStr) (fst kv)) modelMappings of
                Some kv \<Rightarrow> snd kv
              | None \<Rightarrow> modelIdStr))"

definition new_buffer :: "string \<Rightarrow> token_buffer" where
  "new_buffer modelName =
     \<lparr> tokens = [], fullContent = [], model = modelName, buf_thinkingContent = [],
       isInThinking = False, hasThinkingStarted = False, isInResponseTags = False,
       hasResponseStarted = False, pendingThinkingTokens = [], thinkingMessageId = None \<rparr>"

definition switch_model :: "string \<Rightarrow> token_buffer \<Rightarrow> token_buffer" where
  "switch_model currentModel b =
     (if model b \<noteq> currentModel
      then b\<lparr> model := currentModel, isInThinking := False, hasThinkingStarted := False,
              isInResponseTags := False, hasResponseStarted := False,
              buf_thinkingContent := [], pendingThinkingTokens := [],
              thinkingMessageId := None \<rparr>
      else b)"

definition push_token :: "string \<Rightarrow> token_buffer \<Rightarrow> token_buffer" where
  "push_token token b = b\<lparr> tokens := tokens b @ [token], fullContent := fullContent b @ token \<rparr>"

definition nonblank :: "string \<Rightarrow> string" where
  "nonblank s = (if trim s \<noteq> [] then s else [])"

definition plain_stream :: "string \<Rightarrow> string \<Rightarrow> string \<Rightarrow> event" where
  "plain_stream text chatId sessionId = Stream text chatId sessionId None False None None"

text \<open>
  One call of \<^verbatim>\<open>processTokenStreamThinking\<close> yields the string it returns, the buffer,
  the transcript of the session and the events it emits to the room, in order. The
  branches follow the source from top to bottom.
\<close>

type_synonym parse_out = "string \<times> token_buffer \<times> message list option \<times> event list"

text \<open>Thinking start tag seen for the first time.\<close>

definition empty_thinking :: "model_config \<Rightarrow> token_buffer \<Rightarrow> string option" where
  "empty_thinking cfg b =
     (if thinking_end cfg \<noteq> [] \<and> js_includes (fullContent b) (thinking_end cfg) then
        let startIndex = indexOf (fullContent b) (thinking_start cfg);
            endIndex = indexOf_from (fullContent b) (thinking_end cfg) startIndex;
            inner = trim (substring (fullContent b)
                            (startIndex + int (length (thinking_start cfg))) endIndex)
        in if inner = [] then
             Some (nonblank (substring (fullContent b) 0 startIndex
                             @ substring_from (fullContent b)
                                 (endIndex + int (length (thinking_end cfg)))))
           else None
      else None)"

definition thinking_started ::
  "string \<Rightarrow> string \<Rightarrow> string \<Rightarrow> string \<Rightarrow> model_config \<Rightarrow> token_buffer \<Rightarrow> message list option \<Rightarrow> parse_out" where
  "thinking_started now sessionKey chatId sessionId cfg b hist =
     (case empty_thinking cfg b of
        Some cleanContent \<Rightarrow> (cleanContent, b, hist, [])
      | None \<Rightarrow>
          let startIndex = indexOf (fullContent b) (thinking_start cfg);
              beforeThinking = substring (fullContent b) 0 startIndex
          in ([],
              b\<lparr> isInThinking := True, hasThinkingStarted := True,
                 thinkingMessageId := Some (''thinking_'' @ sessionKey @ ''_'' @ now),
                 buf_thinkingContent :=
                   substring_from (fullContent b)
                     (startIndex + int (length (thinking_start cfg))) \<rparr>,
              hist,
              (if trim beforeThinking \<noteq> [] then [plain_stream beforeThinking chatId sessionId]
               else [])))"

text \<open>Inside the thinking region.\<close>

definition gptOssResponseSignal :: string where
  "gptOssResponseSignal = ''<|channel|>final<|message|>''"

definition isGptOss :: "token_buffer \<Rightarrow> bool" where
  "isGptOss b = (model b = ''gpt-oss-20b'' \<or> model b = ''3'')"

definition thinking_end_index :: "model_config \<Rightarrow> token_buffer \<Rightarrow> int option" where
  "thinking_end_index cfg b =
     (if isGptOss b \<and> js_includes (buf_thinkingContent b) gptOssResponseSignal
      then Some (indexOf (buf_thinkingContent b) gptOssResponseSignal)
      else if \<not> isGptOss b \<and> thinking_end cfg \<noteq> []
              \<and> js_includes (buf_thinkingContent b) (thinking_end cfg)
      then Some (indexOf (buf_thinkingContent b) (thinking_end cfg))
      else None)"

definition store_thinking ::
  "string \<Rightarrow> string \<Rightarrow> string \<Rightarrow> string \<Rightarrow> message list option \<Rightarrow> message list option" where
  "store_thinking sessionKey chatId sessionId thinkingOnly hist =
     (let h = (case hist of None \<Rightarrow> [] | Some ms \<Rightarrow> ms) in
      if h \<noteq> [] \<and> role (last h) = Assistant \<and> \<not> isComplete (last h)
      then Some (butlast h @ [(last h)\<lparr> thinkingContent := Some thinkingOnly, hasThinking := True \<rparr>])
      else Some (h @ [\<lparr> role = Assistant, content = [], thinkingContent = Some thinkingOnly,
                        hasThinking = True, chat_id = Some chatId, msg_session_id = sessionId,
                        msg_user_id = Some (takeWhile (\<lambda>c. c \<noteq> CHR ''_'') sessionKey),
                        message_type = ''assistant_with_thinking'', isComplete = False,
                        token_count = 0, total_tokens = None \<rparr>]))"

definition after_thinking :: "model_config \<Rightarrow> int \<Rightarrow> token_buffer \<Rightarrow> string \<times> token_buffer" where
  "after_thinking cfg endIndex b =
     (let afterThinking =
            (if isGptOss b
             then substring_from (buf_thinkingContent b)
                    (endIndex + int (length gptOssResponseSignal))
             else substring_from (buf_thinkingContent b)
                    (endIndex + int (length (thinking_end cfg))))
      in if \<not> isGptOss b \<and> response_start cfg \<noteq> []
            \<and> js_includes afterThinking (response_start cfg) then
           let responseStartIndex = indexOf afterThinking (response_start cfg);
               beforeResponse = substring afterThinking 0 responseStartIndex
           in if trim beforeResponse \<noteq> [] then (beforeResponse, b)
              else (nonblank (substring_from afterThinking
                                (responseStartIndex + int (length (response_start cfg)))),
                    b\<lparr> isInResponseTags := True, hasResponseStarted := True \<rparr>)
         else if isGptOss b then
           (nonblank afterThinking, b\<lparr> isInResponseTags := True, hasResponseStarted := True \<rparr>)
         else (nonblank afterThinking, b))"

definition pending_stream ::
  "model_config \<Rightarrow> string \<Rightarrow> string \<Rightarrow> string \<Rightarrow> token_buffer \<Rightarrow> token_buffer \<times> event list" where
  "pending_stream cfg token chatId sessionId b =
     (if trim token \<noteq> [] \<and> token \<noteq> thinking_start cfg \<and> token \<noteq> thinking_end cfg
      then (b\<lparr> pendingThinkingTokens := pendingThinkingTokens b @ [token] \<rparr>,
            [Stream token chatId sessionId (thinkingMessageId b) True None None])
      else (b, []))"

definition thinking_ended ::
  "string \<Rightarrow> string \<Rightarrow> string \<Rightarrow> model_config \<Rightarrow> int \<Rightarrow> token_buffer \<Rightarrow> message list option \<Rightarrow> parse_out" where
  "thinking_ended sessionKey chatId sessionId cfg endIndex b hist =
     (let thinkingOnly = trim (substring (buf_thinkingContent b) 0 endIndex);
          (ret, b') = after_thinking cfg endIndex
                        (b\<lparr> isInThinking := False, pendingThinkingTokens := [],
                            thinkingMessageId := None \<rparr>)
      in (ret, b',
          (if thinkingOnly \<noteq> []
           then store_thinking sessionKey chatId sessionId thinkingOnly hist else hist),
          (if thinkingOnly \<noteq> []
           then [MoveToThinking thinkingOnly chatId sessionId (thinkingMessageId b)
                   (pendingThinkingTokens b),
                 ThinkingComplete chatId sessionId]
           else [])))"

definition in_thinking ::
  "string \<Rightarrow> string \<Rightarrow> string \<Rightarrow> string \<Rightarrow> model_config \<Rightarrow> token_buffer \<Rightarrow> message list option \<Rightarrow> parse_out" where
  "in_thinking token sessionKey chatId sessionId cfg b0 hist =
     (case pending_stream cfg token chatId sessionId
             (b0\<lparr> buf_thinkingContent := buf_thinkingContent b0 @ token \<rparr>) of
        (b, ev1) \<Rightarrow>
          (case thinking_end_index cfg b of
             None \<Rightarrow> ([], b, hist, ev1)
           | Some endIndex \<Rightarrow>
               (case thinking_ended sessionKey chatId sessionId cfg endIndex b hist of
                  (ret, b', hist', ev2) \<Rightarrow> (ret, b', hist', ev1 @ ev2))))"

text \<open>Past the thinking region: the answer tags, then plain streaming.\<close>

definition response_started :: "string \<Rightarrow> string \<Rightarrow> model_config \<Rightarrow> token_buffer \<Rightarrow> message list option \<Rightarrow> parse_out" where
  "response_started chatId sessionId cfg b hist =
     (let responseStartIndex = indexOf (fullContent b) (response_start cfg);
          beforeResponse = substring (fullContent b) 0 responseStartIndex
      in (nonblank (substring_from (fullContent b)
                      (responseStartIndex + int (length (response_start cfg)))),
          b\<lparr> isInResponseTags := True, hasResponseStarted := True \<rparr>,
          hist,
          (if trim beforeResponse \<noteq> [] then [plain_stream beforeResponse chatId sessionId]
           else [])))"

definition response_ended :: "model_config \<Rightarrow> token_buffer \<Rightarrow> message list option \<Rightarrow> parse_out" where
  "response_ended cfg b hist =
     (let responseEndIndex = indexOf (fullContent b) (response_end cfg);
          responseContent = substring (fullContent b) 0 responseEndIndex;
          responseStartIndex = indexOf responseContent (response_start cfg);
          pureResponseContent =
            (if responseStartIndex \<ge> 0
             then trim (substring_from responseContent
                          (responseStartIndex + int (length (response_start cfg))))
             else trim responseContent);
          afterResponse = substring_from (fullContent b)
                            (responseEndIndex + int (length (response_end cfg)))
      in ((if pureResponseContent \<noteq> [] then pureResponseContent else nonblank afterResponse),
          b\<lparr> isInResponseTags := False \<rparr>, hist, []))"

definition parse_token ::
  "string \<Rightarrow> string \<Rightarrow> string \<Rightarrow> string \<Rightarrow> string \<Rightarrow> token_buffer \<Rightarrow> message list option \<Rightarrow> parse_out" where
  "parse_token now token sessionKey chatId sessionId b hist =
     (case MODEL_TYPES (model b) of
        None \<Rightarrow> (token, b, hist, [])
      | Some cfg \<Rightarrow>
          if \<not> supports_thinking cfg then (token, b, hist, [])
          else if thinking_start cfg \<noteq> [] \<and> js_includes (fullContent b) (thinking_start cfg)
                  \<and> \<not> hasThinkingStarted b
          then thinking_started now sessionKey chatId sessionId cfg b hist
          else if isInThinking b
          then in_thinking token sessionKey chatId sessionId cfg b hist
          else if response_start cfg \<noteq> [] \<and> \<not> hasResponseStarted b
                  \<and> js_includes (fullContent b) (response_start cfg)
          then response_started chatId sessionId cfg b hist
          else if isInResponseTags b \<and> response_end cfg \<noteq> []
                  \<and> js_includes (fullContent b) (response_end cfg)
          then response_ended cfg b hist
          else (token, b, hist, []))"

text \<open>
  \<^verbatim>\<open>processTokenStreamThinking(token, sessionKey, modelId, io, roomId, chatId, sessionId)\<close>:
  get or create the buffer of the session, reset it when the model changed, append the
  token, parse, and write the results back. \<open>now\<close> is the text of \<^verbatim>\<open>Date.now()\<close>.
\<close>

definition processTokenStreamThinking ::
  "string \<Rightarrow> string \<Rightarrow> string \<Rightarrow> string option \<Rightarrow> string \<Rightarrow> string \<Rightarrow> string \<Rightarrow> globals \<Rightarrow> string \<times> globals" where
  "processTokenStreamThinking now token sessionKey modelId roomId chatId sessionId g =
     (if token = [] then ([], g)
      else
        let b0 = (case tokenBuffers g sessionKey of
                    None \<Rightarrow> new_buffer (getModelNameFromId modelId)
                  | Some b \<Rightarrow> b);
            b1 = push_token token (switch_model (getModelNameFromId modelId) b0);
            (ret, b2, hist, evs) =
              parse_token now token sessionKey chatId sessionId b1 (globalChatHistory g sessionKey)
        in (ret,
            g\<lparr> tokenBuffers := (tokenBuffers g)(sessionKey \<mapsto> b2),
               globalChatHistory := (globalChatHistory g)(sessionKey := hist),
               emitted := emitted g @ map (Pair roomId) evs \<rparr>))"

section \<open>Socket chat: one chat from prompt to completion\<close>

text \<open>
  A message taken from the chat queue is a bare string or an object, of which the
  handler reads the fields below (\<open>None\<close>: the field is absent). Field values are
  strings.
\<close>

datatype bus_message =
    BusString string
  | BusObject "string option" "string option" "string option" "string option"
      "string option" "string option" "string option" "string option"

fun b_type :: "bus_message \<Rightarrow> string option" where
  "b_type (BusObject t st tk d c r m ch) = t" | "b_type (BusString s) = None"

fun b_status :: "bus_message \<Rightarrow> string option" where
  "b_status (BusObject t st tk d c r m ch) = st" | "b_status (BusString s) = None"

fun b_token :: "bus_message \<Rightarrow> string option" where
  "b_token (BusObject t st tk d c r m ch) = tk" | "b_token (BusString s) = None"

fun b_data :: "bus_message \<Rightarrow> string option" where
  "b_data (BusObject t st tk d c r m ch) = d" | "b_data (BusString s) = None"

fun b_content :: "bus_message \<Rightarrow> string option" where
  "b_content (BusObject t st tk d c r m ch) = c" | "b_content (BusString s) = None"

fun b_response :: "bus_message \<Rightarrow> string option" where
  "b_response (BusObject t st tk d c r m ch) = r" | "b_response (BusString s) = None"

fun b_message :: "bus_message \<Rightarrow> string option" where
  "b_message (BusObject t st tk d c r m ch) = m" | "b_message (BusString s) = None"

fun b_chat_id :: "bus_message \<Rightarrow> string option" where
  "b_chat_id (BusObject t st tk d c r m ch) = ch" | "b_chat_id (BusString s) = None"

text \<open>
  \<^verbatim>\<open>JSON.stringify\<close> of such a message. The keys come out in the order the object was
  built with, which the model does not carry: they are printed in the order of the
  constructor's arguments.
\<close>

definition hex_digit :: "nat \<Rightarrow> char" where
  "hex_digit d = (if d < 10 then char_of (48 + d) else char_of (87 + d))"

definition json_escape :: "char \<Rightarrow> string" where
  "json_escape c =
     (if c = CHR 0x22 then [CHR 0x5C, CHR 0x22]
      else if c = CHR 0x5C then [CHR 0x5C, CHR 0x5C]
      else if c = CHR 0x08 then [CHR 0x5C, CHR ''b'']
      else if c = CHR 0x0C then [CHR 0x5C, CHR ''f'']
      else if c = CHR 0x0A then [CHR 0x5C, CHR ''n'']
      else if c = CHR 0x0D then [CHR 0x5C, CHR ''r'']
      else if c = CHR 0x09 then [CHR 0x5C, CHR ''t'']
      else if (of_char c :: nat) < 32
      then [CHR 0x5C, CHR ''u'', CHR ''0'', CHR ''0'',
            hex_digit (of_char c div 16), hex_digit (of_char c mod 16)]
      else [c])"

definition json_string :: "string \<Rightarrow> string" where
  "json_string s = [CHR 0x22] @ concat (map json_escape s) @ [CHR 0x22]"

definition json_field :: "string \<Rightarrow> string option \<Rightarrow> string list" where
  "json_field name v =
     (case v of None \<Rightarrow> [] | Some s \<Rightarrow> [json_string name @ '':'' @ json_string s])"

fun join_comma :: "string list \<Rightarrow> string" where
  "join_comma [] = []"
| "join_comma [x] = x"
| "join_comma (x # y # ys) = x @ '','' @ join_comma (y # ys)"

definition json_stringify :: "bus_message \<Rightarrow> string" where
  "json_stringify m =
     (case m of
        BusString s \<Rightarrow> json_string s
      | BusObject t st tk d c r ms ch \<Rightarrow>
          ''{'' @ join_comma (json_field ''type'' t @ json_field ''status'' st
                   @ json_field ''token'' tk @ json_field ''data'' d
                   @ json_field ''content'' c @ json_field ''response'' r
                   @ json_field ''message'' ms @ json_field ''chat_id'' ch) @ ''}'')"

text \<open>The state one \<^verbatim>\<open>send-chat-message\<close> handler closes over.\<close>

record chat_closure =
  finalUserId :: string
  finalSessionId :: string
  finalChatId :: string
  finalInstanceId :: "string option"
  roomId :: string
  finalPrompt :: string
  rabbitConsumer :: "consumer option"
  isStreamingComplete :: bool
  messageCount :: nat

definition generateSessionTitle :: "string \<Rightarrow> string" where
  "generateSessionTitle firstMessage =
     (if firstMessage = [] then ''New Chat''
      else let trimmed = trim firstMessage in
           if trimmed = [] then ''New Chat''
           else if length trimmed > 50 then trim (substring trimmed 0 50) @ ''...''
           else trimmed)"

definition isCompletionMessage :: "bus_message \<Rightarrow> bool" where
  "isCompletionMessage m =
     ((b_type m = Some ''status'' \<and> b_token m = Some ''done'')
      \<or> (b_type m = Some ''completion'' \<and> b_status m = Some ''done''))"

fun mark_first :: "('a \<Rightarrow> bool) \<Rightarrow> ('a \<Rightarrow> 'a) \<Rightarrow> 'a list \<Rightarrow> 'a list" where
  "mark_first P f [] = []"
| "mark_first P f (x # xs) = (if P x then f x # xs else x # mark_first P f xs)"

definition mark_complete :: "string \<Rightarrow> message list \<Rightarrow> message list" where
  "mark_complete chatId h =
     (let h1 = (if h \<noteq> [] \<and> role (last h) = Assistant
                then butlast h @ [(last h)\<lparr> isComplete := True,
                        message_type := ''complete_response'',
                        total_tokens := Some (if token_count (last h) \<noteq> 0
                                              then token_count (last h) else 1) \<rparr>]
                else h)
      in rev (mark_first (\<lambda>msg. role msg = User \<and> chat_id msg = Some chatId \<and> \<not> isComplete msg)
                (\<lambda>msg. msg\<lparr> isComplete := True \<rparr>) (rev h1)))"

definition responseContent :: "bus_message \<Rightarrow> string" where
  "responseContent m =
     (case m of
        BusString s \<Rightarrow> s
      | BusObject t st tk d c r ms ch \<Rightarrow>
          if t = Some ''token'' \<and> truthy d then the d
          else if truthy d then the d
          else if truthy r then the r
          else if truthy c then the c
          else if truthy ms then the ms
          else json_stringify m)"

definition append_response :: "bool \<Rightarrow> string \<Rightarrow> chat_closure \<Rightarrow> message list option \<Rightarrow> message list" where
  "append_response isTokenMessage text cl hist =
     (let h = (case hist of None \<Rightarrow> [] | Some ms \<Rightarrow> ms) in
      if h \<noteq> [] \<and> role (last h) = Assistant \<and> \<not> isComplete (last h)
      then butlast h @ [(last h)\<lparr> content := content (last h) @ text,
                                  token_count := token_count (last h) + 1,
                                  message_type := (if isTokenMessage then ''streaming_tokens''
                                                   else message_type (last h)) \<rparr>]
      else h @ [\<lparr> role = Assistant, content = text, thinkingContent = None, hasThinking = False,
                  chat_id = Some (finalChatId cl), msg_session_id = finalSessionId cl,
                  msg_user_id = Some (finalUserId cl),
                  message_type = (if isTokenMessage then ''streaming_tokens''
                                  else ''streaming_content''),
                  isComplete = False, token_count = 1, total_tokens = None \<rparr>])"

definition name_session :: "chat_closure \<Rightarrow> message list \<Rightarrow> session list \<Rightarrow> session list" where
  "name_session cl h names =
     (case find_index (\<lambda>s. session_id s = finalSessionId cl \<and> user_id s = Some (finalUserId cl)) names of
        None \<Rightarrow>
          let userPrompt =
                (case find (\<lambda>msg. role msg = User \<and> chat_id msg = Some (finalChatId cl)) h of
                   None \<Rightarrow> finalPrompt cl
                 | Some userMessage \<Rightarrow>
                     if content userMessage \<noteq> [] then content userMessage else finalPrompt cl)
          in \<lparr> session_id = finalSessionId cl, title = generateSessionTitle userPrompt,
               user_id = Some (finalUserId cl), current_chat_id = Some (finalChatId cl),
               total_chats = 1, source = None, titleSource = None \<rparr> # names
      | Some i \<Rightarrow> names[i := (names ! i)\<lparr> current_chat_id := Some (finalChatId cl) \<rparr>])"

text \<open>The model id the callback reads: \<^verbatim>\<open>sessionContext?.modelId || 'unknown'\<close>.\<close>

definition context_modelId :: "globals \<Rightarrow> string \<Rightarrow> string option" where
  "context_modelId g sessionKey =
     (case globalStreamingSessions g sessionKey of
        None \<Rightarrow> Some ''unknown''
      | Some ctx \<Rightarrow> if truthy (ctx_modelId ctx) then ctx_modelId ctx else Some ''unknown'')"

text \<open>
  The callback given to \<^verbatim>\<open>rabbitmq.consumeQueue\<close> for the chat queue, on one message,
  in three parts: what a completion signal does, how the text of a token is recorded in
  the transcript and the catalog, and how it is parsed and streamed. The timers the
  callback sets and clears are not part of the model.
\<close>

definition complete_chat :: "bus_message \<Rightarrow> chat_closure \<Rightarrow> globals \<Rightarrow> globals" where
  "complete_chat m cl g =
     (let historyKey = finalUserId cl @ ''_'' @ finalSessionId cl in
      emit (roomId cl)
        (Complete ''Stream completed'' (Some (finalChatId cl)) (Some (finalSessionId cl))
           (finalInstanceId cl) (b_type m) (Some (messageCount cl)))
        (case globalChatHistory g historyKey of
           None \<Rightarrow> g
         | Some h \<Rightarrow>
             if h \<noteq> []
             then g\<lparr> globalChatHistory :=
                       (globalChatHistory g)(historyKey \<mapsto> mark_complete (finalChatId cl) h) \<rparr>
             else g))"

definition record_token :: "bus_message \<Rightarrow> chat_closure \<Rightarrow> string \<Rightarrow> globals \<Rightarrow> globals" where
  "record_token m cl text g =
     (let historyKey = finalUserId cl @ ''_'' @ finalSessionId cl;
          h = append_response (b_type m = Some ''token'') text cl (globalChatHistory g historyKey);
          g1 = g\<lparr> globalChatHistory := (globalChatHistory g)(historyKey \<mapsto> h) \<rparr>
      in if messageCount cl \<le> 3 \<and> length (trim text) > 2
         then g1\<lparr> globalSessionNames := name_session cl h (globalSessionNames g1) \<rparr>
         else g1)"

definition stream_token :: "string \<Rightarrow> chat_closure \<Rightarrow> string \<Rightarrow> globals \<Rightarrow> globals" where
  "stream_token now cl text g =
     (let sessionKey = finalUserId cl @ ''_'' @ finalSessionId cl in
      case processTokenStreamThinking now text sessionKey (context_modelId g sessionKey)
             (roomId cl) (finalChatId cl) (finalSessionId cl) g of
        (processedToken, g') \<Rightarrow>
          if processedToken \<noteq> [] \<and> trim processedToken \<noteq> []
          then emit (roomId cl)
                 (Stream processedToken (finalChatId cl) (finalSessionId cl) None False
                    (finalInstanceId cl) (Some (messageCount cl))) g'
          else g')"

definition handle_message :: "string \<Rightarrow> bus_message \<Rightarrow> chat_closure \<Rightarrow> globals \<Rightarrow> chat_closure \<times> globals" where
  "handle_message now m cl0 g =
     (if isStreamingComplete cl0 then (cl0, g)
      else
        let cl = cl0\<lparr> messageCount := messageCount cl0 + 1 \<rparr>
        in if truthy (b_chat_id m) \<and> the (b_chat_id m) \<noteq> finalChatId cl then (cl, g)
           else if isCompletionMessage m
           then (cl\<lparr> isStreamingComplete := True \<rparr>, complete_chat m cl g)
           else if responseContent m = [] then (cl, g)
           else (cl, stream_token now cl (responseContent m)
                       (record_token m cl (responseContent m) g)))"

text \<open>
  The callback on the messages of the queue, one after the other. The clock reading
  \<open>now\<close> only enters the id of the thinking message; it is the same for all messages.
\<close>

fun run_chat :: "string \<Rightarrow> bus_message list \<Rightarrow> chat_closure \<Rightarrow> globals \<Rightarrow> chat_closure \<times> globals" where
  "run_chat now [] cl g = (cl, g)"
| "run_chat now (m # ms) cl g =
     (case handle_message now m cl g of (cl', g') \<Rightarrow> run_chat now ms cl' g')"

text \<open>\<^verbatim>\<open>cleanupConsumer\<close> of the handler, which its timers call.\<close>

definition cleanupConsumer :: "chat_closure \<Rightarrow> globals \<Rightarrow> chat_closure \<times> globals" where
  "cleanupConsumer cl g =
     (if rabbitConsumer cl \<noteq> None \<and> \<not> isStreamingComplete cl
      then (cl\<lparr> rabbitConsumer := None, isStreamingComplete := True \<rparr>,
            cleanupTokenBuffer (finalUserId cl @ ''_'' @ finalSessionId cl)
              (g\<lparr> globalActiveConsumer := None,
                  globalStreamingSessions :=
                    (globalStreamingSessions g)(finalUserId cl @ ''_'' @ finalSessionId cl := None) \<rparr>))
      else (cl, g))"

definition forceCleanupAllConsumers :: "cancel_result \<Rightarrow> globals \<Rightarrow> globals" where
  "forceCleanupAllConsumers cancel g =
     (let g1 = (case globalActiveConsumer g of
                  None \<Rightarrow> g
                | Some active \<Rightarrow>
                    (case cancel of
                       CancelReturns \<Rightarrow> g\<lparr> globalActiveConsumer := None \<rparr>
                     | CancelThrows \<Rightarrow> g))
      in g1\<lparr> globalStreamingSessions := Map.empty \<rparr>)"

text \<open>
  The \<^verbatim>\<open>send-chat-message\<close> handler up to the start of the consumer: the token buffer
  of the session is reset, the prompt is stored, the previous consumer is cancelled and
  the session context is registered. \<open>started\<close> is the consumer that
  \<^verbatim>\<open>rabbitmq.consumeQueue\<close> resolves to (\<open>None\<close> when the connection is unavailable or the
  promise rejects). The request to Upstream that follows is not modelled.
\<close>

record socket_chat_data =
  sd_prompt :: "string option"
  sd_message :: "string option"
  sd_session_id :: "string option"
  sd_chat_id :: "string option"
  sd_instance_id :: "string option"
  sd_llm_model_id :: "string option"
  sd_userId :: "string option"
  sd_roomId :: string

definition send_chat_message ::
  "string \<Rightarrow> string \<Rightarrow> cancel_result \<Rightarrow> consumer option \<Rightarrow> socket_chat_data \<Rightarrow> globals \<Rightarrow> chat_closure option \<times> globals" where
  "send_chat_message socket_id now cancel started d g =
     (let user = (if truthy (sd_userId d) then sd_userId d else currentUserId g) in
      if \<not> truthy user then (None, g)
      else
        let sid = or_else (sd_session_id d) ''1'';
            cid = or_else (sd_chat_id d) ''1'';
            prompt = (if truthy (sd_prompt d) then the (sd_prompt d) else or_else (sd_message d) []);
            sessionKey = the user @ ''_'' @ sid;
            g1 = g\<lparr> tokenBuffers :=
                      (tokenBuffers g)(sessionKey \<mapsto> new_buffer (getModelNameFromId (sd_llm_model_id d))) \<rparr>;
            prior = (case globalChatHistory g1 sessionKey of None \<Rightarrow> [] | Some ms \<Rightarrow> ms);
            g2 = g1\<lparr> globalChatHistory := (globalChatHistory g1)(sessionKey \<mapsto> prior @
                      [\<lparr> role = User, content = prompt, thinkingContent = None, hasThinking = False,
                         chat_id = Some cid, msg_session_id = sid, msg_user_id = user,
                         message_type = ''user_prompt'', isComplete = False, token_count = 0,
                         total_tokens = None \<rparr>]) \<rparr>;
            g3 = forceCleanupAllConsumers cancel g2;
            g4 = g3\<lparr> globalConsumerCount := globalConsumerCount g3 + 1,
                     globalStreamingSessions := (globalStreamingSessions g3)(sessionKey \<mapsto>
                       \<lparr> ctx_modelId = sd_llm_model_id d, ctx_chatId = cid,
                         ctx_instanceId = sd_instance_id d, ctx_sessionId = sid,
                         ctx_userId = the user,
                         ctx_consumerTag = make_consumerTag socket_id sid cid now \<rparr>) \<rparr>
        in (Some \<lparr> finalUserId = the user, finalSessionId = sid, finalChatId = cid,
                   finalInstanceId = sd_instance_id d, roomId = sd_roomId d, finalPrompt = prompt,
                   rabbitConsumer = started, isStreamingComplete = False, messageCount = 0 \<rparr>,
            (case started of
               None \<Rightarrow> g4
             | Some c \<Rightarrow> g4\<lparr> globalActiveConsumer := Some c \<rparr>)))"

section \<open>Example states\<close>

text \<open>
  User \<open>u1\<close> sends the first prompt of session 19 over the socket, for a model that marks
  its reasoning with \<^verbatim>\<open><think>\<close>. In \<open>live_state\<close> the consumer has started and carries
  the tag the handler built; in \<open>offline_state\<close> the Bus was unavailable and no consumer
  started.
\<close>

definition u1_chat :: socket_chat_data where
  "u1_chat = \<lparr> sd_prompt = Some ''hi'', sd_message = None, sd_session_id = Some ''19'',
       sd_chat_id = Some ''1'', sd_instance_id = None, sd_llm_model_id = Some ''7'',
       sd_userId = Some ''u1'', sd_roomId = ''chat_u1_19_1'' \<rparr>"

definition live_state :: globals where
  "live_state = snd (send_chat_message ''abc'' ''1700000000000'' CancelReturns
       (Some \<lparr> consumerTag = make_consumerTag ''abc'' ''19'' ''1'' ''1700000000000'' \<rparr>)
       u1_chat init_globals)"

definition offline_state :: globals where
  "offline_state = snd (send_chat_message ''abc'' ''1700000000000'' CancelReturns None
       u1_chat init_globals)"

definition u1_stop :: stop_request where
  "u1_stop = \<lparr> req_user_id = Some ''u1'', req_session_id = Some ''19'', req_chat_id = Some ''1'',
       req_instance_id = None \<rparr>"

text \<open>
  \<open>full_window_state\<close>: user \<open>u1\<close>, whose last session at Upstream was 4, has created the
  sessions 5 to 14. \<open>counted_state n\<close>: \<open>n\<close> prompts of session 19 have been admitted.
  \<open>reconcile_state\<close>: a catalog with the local session 15 and the session 14 that was
  fetched from Upstream over HTTP. \<open>reconcile_payload\<close>, \<open>reconcile_object\<close> and
  \<open>reconcile_objects\<close>: the list Upstream publishes for \<open>u1\<close>, in the three shapes.
  \<open>split_payload\<close>: an array with two objects for \<open>u1\<close>. \<open>headless_payload\<close>: an array
  whose first object, for a user without sessions, has no \<^verbatim>\<open>sessions\<close>.
\<close>

definition window_session :: "string \<Rightarrow> session" where
  "window_session sid =
     \<lparr> session_id = sid, title = ''Chat Session '' @ sid, user_id = Some ''u1'',
       current_chat_id = None, total_chats = 0, source = Some ''local'', titleSource = None \<rparr>"

definition full_window_state :: globals where
  "full_window_state =
     init_globals\<lparr> currentUserId := Some ''u1'',
       foreignLastSessionIds := [''u1'' \<mapsto> 4], sessionCounters := [''u1'' \<mapsto> 14],
       globalSessionNames := map window_session
         [''14'', ''13'', ''12'', ''11'', ''10'', ''9'', ''8'', ''7'', ''6'', ''5''] \<rparr>"

definition new_session_request :: chatsession_request where
  "new_session_request = \<lparr> cs_user_id = None, cs_title = None \<rparr>"

definition u1_prompt :: chat_request where
  "u1_prompt = \<lparr> cr_user_id = Some ''u1'', cr_chat_id = Some ''1'', cr_session_id = Some ''19'',
       cr_prompt = Some ''hi'' \<rparr>"

definition counted_state :: "nat \<Rightarrow> globals" where
  "counted_state n = init_globals\<lparr> currentUserId := Some ''u1'',
       sessionMessageCounts := [''u1_19'' \<mapsto> n] \<rparr>"

definition reconcile_state :: globals where
  "reconcile_state = init_globals\<lparr> currentUserId := Some ''u1'',
     globalSessionNames :=
       [\<lparr> session_id = ''15'', title = ''Chat Session 15'', user_id = Some ''u1'',
          current_chat_id = Some ''1'', total_chats = 1, source = Some ''local'', titleSource = None \<rparr>,
        \<lparr> session_id = ''14'', title = ''Bug triage'', user_id = Some ''u1'',
          current_chat_id = None, total_chats = 0, source = Some ''foreign'',
          titleSource = None \<rparr>] \<rparr>"

definition reconcile_payload :: index_payload where
  "reconcile_payload = PairArray [(''15'', ''Debugging crash''), (''14'', ''Bug triage''), (''13'', ''...'')]"

definition reconcile_object :: index_payload where
  "reconcile_object =
     UserObject (Some ''u1'') (Some [(''15'', ''Debugging crash''), (''14'', ''Bug triage'')])"

definition reconcile_objects :: index_payload where
  "reconcile_objects =
     UserObjectArray
       [(Some ''u2'', Some [(''3'', ''Release notes'')]),
        (Some ''u1'', Some [(''15'', ''Debugging crash''), (''14'', ''Bug triage'')])]"

definition split_payload :: index_payload where
  "split_payload =
     UserObjectArray
       [(Some ''u1'', Some [(''14'', ''Bug triage'')]),
        (Some ''u1'', Some [(''15'', ''Debugging crash'')])]"

definition headless_payload :: index_payload where
  "headless_payload =
     UserObjectArray
       [(Some ''u2'', None),
        (Some ''u1'', Some [(''15'', ''Debugging crash''), (''14'', ''Bug triage'')])]"

text \<open>
  The invariant of the merge map: its keys are distinct, and every value is a session of
  the user whose id is its key.
\<close>

definition keyed :: "string \<Rightarrow> session_map \<Rightarrow> bool" where
  "keyed user m = (distinct (map fst m)
      \<and> (\<forall>kv \<in> set m. session_id (fst (snd kv)) = fst kv \<and> user_id (fst (snd kv)) = Some user))"

text \<open>
  The closure of \<open>u1\<close>'s chat, and messages of the chat queue: a token of chat 2, a token
  that names no chat, a token whose text is empty, and Upstream's completion signal.
\<close>

definition u1_closure :: chat_closure where
  "u1_closure = the (fst (send_chat_message ''abc'' ''1700000000000'' CancelReturns
       (Some \<lparr> consumerTag = make_consumerTag ''abc'' ''19'' ''1'' ''1700000000000'' \<rparr>)
       u1_chat init_globals))"

definition token_message :: "string \<Rightarrow> string option \<Rightarrow> bus_message" where
  "token_message text chat = BusObject (Some ''token'') None None (Some text) None None None chat"


text \<open>
  Reading a trace of emissions: the texts of the \<^verbatim>\<open>stream\<close> events marked
  \<^verbatim>\<open>isPendingThinking\<close>, in order, and whether an emission is a \<^verbatim>\<open>move_to_thinking\<close>.
\<close>

definition pending_of :: "emission \<Rightarrow> string list" where
  "pending_of e =
     (case snd e of
        Stream text c s mid pending inst n \<Rightarrow> (if pending then [text] else [])
      | _ \<Rightarrow> [])"

definition pending_contents :: "emission list \<Rightarrow> string list" where
  "pending_contents tr = concat (map pending_of tr)"

definition is_move :: "emission \<Rightarrow> bool" where
  "is_move e = (case snd e of MoveToThinking X c s mid pend \<Rightarrow> True | _ \<Rightarrow> False)"

text \<open>
  The invariant of one chat's parser buffer \<open>b\<close> against the trace \<open>tr\<close> of what the chat has
  emitted so far. Every \<^verbatim>\<open>move_to_thinking\<close> of the trace is sound for the content
  accumulated (\<open>moves_ok\<close>); until thinking has ended no move has been emitted, and inside
  the thinking region the pending tokens of the buffer are those of the trace and the
  thinking content is the tail of the content accumulated.
\<close>

definition moves_ok :: "string \<Rightarrow> emission list \<Rightarrow> bool" where
  "moves_ok full tr =
     (\<forall>pre rm X c s mid pend post.
        tr = pre @ (rm, MoveToThinking X c s mid pend) # post \<longrightarrow>
          X \<noteq> [] \<and> sublist X full \<and> pend = pending_contents pre
          \<and> (\<exists>post'. post = (rm, ThinkingComplete c s) # post'))"

definition supports :: "string \<Rightarrow> bool" where
  "supports modelName =
     (case MODEL_TYPES modelName of None \<Rightarrow> False | Some cfg \<Rightarrow> supports_thinking cfg)"

definition well :: "token_buffer \<Rightarrow> emission list \<Rightarrow> bool" where
  "well b tr =
     (fullContent b = concat (tokens b)
      \<and> (isInThinking b \<longrightarrow> hasThinkingStarted b \<and> supports (model b))
      \<and> (\<not> hasThinkingStarted b \<longrightarrow>
            pendingThinkingTokens b = [] \<and> pending_contents tr = [] \<and> (\<forall>e \<in> set tr. \<not> is_move e))
      \<and> (isInThinking b \<longrightarrow>
            pendingThinkingTokens b = pending_contents tr
            \<and> suffix (buf_thinkingContent b) (fullContent b) \<and> (\<forall>e \<in> set tr. \<not> is_move e))
      \<and> moves_ok (fullContent b) tr)"

definition chat_inv :: "nat \<Rightarrow> string \<Rightarrow> globals \<Rightarrow> bool" where
  "chat_inv n0 sessionKey g =
     (\<exists>b. tokenBuffers g sessionKey = Some b
          \<and> model b = getModelNameFromId (context_modelId g sessionKey)
          \<and> n0 \<le> length (emitted g)
          \<and> well b (drop n0 (emitted g)))"

text \<open>The tokens of chat 1 as the messages Upstream publishes for them.\<close>

definition u1_tokens :: "string list \<Rightarrow> bus_message list" where
  "u1_tokens ts = map (\<lambda>t. token_message t (Some ''1'')) ts"

text \<open>
  \<open>streaming_state\<close>: the consumer of \<open>live_state\<close> has handled the tokens \<^verbatim>\<open>Hel\<close> and
  \<^verbatim>\<open>lo\<close> of chat 1.
\<close>

definition streaming_state :: globals where
  "streaming_state =
     snd (run_chat ''1700000000001'' (u1_tokens [''Hel'', ''lo'']) u1_closure live_state)"

section \<open>Properties of the stop path\<close>

lemmas eval_defs = live_state_def offline_state_def u1_stop_def u1_chat_def
  send_chat_message_def init_globals_def Let_def or_else_def
  forceCleanupAllConsumers_def make_consumerTag_def new_buffer_def

text \<open>
  The scrub itself does what its name says: after it, the transcript it was called for
  holds no message of the chat that is not complete.
\<close>

lemma removeIncomplete_no_orphan:
  assumes "globalChatHistory (removeIncompleteChatFromHistory userId sessionId chatId g)
             (tmpl_null userId @ ''_'' @ sessionId) = Some msgs"
      and "msg \<in> set msgs"
  shows "\<not> (chat_id msg = Some chatId \<and> \<not> isComplete msg)"
  using assms
  by (auto simp: removeIncompleteChatFromHistory_def shouldRemove_def Let_def split: option.splits)

lemma forceCleanup_emitted:
  "emitted (snd (forceCleanupConsumerForSession cancel u s c g)) = emitted g"
  by (auto simp: forceCleanupConsumerForSession_def cleanupTokenBuffer_def Let_def
      removeIncompleteChatFromHistory_def
           split: option.splits if_splits cancel_result.splits)

text \<open>
  The matcher decides on the tag alone. When the tag of the active consumer contains
  \<^verbatim>\<open>userId_sessionId\<close> and the broker cancels it, the matcher answers \<open>True\<close>, no consumer
  is active afterwards and the transcript is the scrubbed one.
\<close>

lemma forceCleanup_matching_tag:
  assumes "globalActiveConsumer g = Some active"
      and "js_includes (consumerTag active) (tmpl_null userId @ ''_'' @ sessionId)"
      and "c \<noteq> []"
  shows "fst (forceCleanupConsumerForSession CancelReturns userId sessionId (Some c) g)"
    and "globalActiveConsumer
           (snd (forceCleanupConsumerForSession CancelReturns userId sessionId (Some c) g)) = None"
    and "globalChatHistory
           (snd (forceCleanupConsumerForSession CancelReturns userId sessionId (Some c) g)) =
         globalChatHistory (removeIncompleteChatFromHistory userId sessionId c g)"
  using assms
  by (auto simp: forceCleanupConsumerForSession_def cleanupTokenBuffer_def Let_def
        removeIncompleteChatFromHistory_def split: option.splits)

lemma stop_cleanup_matching_tag:
  assumes "truthy (req_session_id req)" and "req_chat_id req = Some c" and "c \<noteq> []"
      and "globalActiveConsumer g = Some active"
      and "js_includes (consumerTag active) (tmpl_null u @ ''_'' @ the (req_session_id req))"
      and "globalChatHistory (stop_cleanup CancelReturns u text ctype reason req g)
             (tmpl_null u @ ''_'' @ the (req_session_id req)) = Some msgs"
      and "msg \<in> set msgs"
  shows "globalActiveConsumer (stop_cleanup CancelReturns u text ctype reason req g) = None
       \<and> \<not> (chat_id msg = Some c \<and> \<not> isComplete msg)"
proof -
  let ?s = "the (req_session_id req)"
  let ?f = "snd (forceCleanupConsumerForSession CancelReturns u ?s (Some c) g)"
  have a: "globalActiveConsumer (stop_cleanup CancelReturns u text ctype reason req g)
             = globalActiveConsumer ?f"
   and h: "globalChatHistory (stop_cleanup CancelReturns u text ctype reason req g)
             = globalChatHistory ?f"
    using assms(1,2) by (simp_all add: stop_cleanup_def Let_def emit_def)
  note m = forceCleanup_matching_tag[OF assms(4,5,3)]
  from assms(6) have "globalChatHistory (removeIncompleteChatFromHistory u ?s c g)
             (tmpl_null u @ ''_'' @ ?s) = Some msgs"
    unfolding h m(3) .
  from removeIncomplete_no_orphan[OF this assms(7)] a m(2) show ?thesis by simp
qed

text \<open>
  A reply of Upstream with a status that is not a success ends the request with status
  500 and leaves the state as it was, whatever the status.
\<close>

lemma stop_not_ok_no_cleanup:
  "stop_endpoint (ReplyNotOk code) cancel req g =
     (\<lparr> http_status = 500, success = False, resp_status = None, upstream_status = Some code,
         resp_message = None, cleanup_completed = None,
         resp_error = Some ''Failed to stop generation on foreign server'' \<rparr>, g)"
  by (simp add: stop_endpoint_def)

text \<open>
  A success reply whose body is \<^verbatim>\<open>null\<close> runs both cleanups: four events reach the room.
\<close>

lemma stop_null_body_events:
  assumes "truthy (req_session_id req)"
  shows "emitted (snd (stop_endpoint (ReplyOk BodyNull) cancel req g)) = emitted g @
     [(stop_roomId (stop_finalUserId req g) req,
       Complete ''Generation stopped by user'' (req_chat_id req) (req_session_id req)
         (req_instance_id req) (Some ''user_stopped'') (Some 0)),
      (stop_roomId (stop_finalUserId req g) req,
       CleanupGeneration (stop_finalUserId req g) (the (req_session_id req)) (req_chat_id req)
         (req_instance_id req) ''stop_requested''),
      (stop_roomId (stop_finalUserId req g) req,
       Complete ''Generation stopped (server timeout)'' (req_chat_id req) (req_session_id req)
         (req_instance_id req) (Some ''timeout_stopped'') (Some 0)),
      (stop_roomId (stop_finalUserId req g) req,
       CleanupGeneration (stop_finalUserId req g) (the (req_session_id req)) (req_chat_id req)
         (req_instance_id req) ''stop_timeout'')]"
  using assms
  by (simp add: stop_endpoint_def stop_fallback_def stop_cleanup_def Let_def emit_def
        forceCleanup_emitted)

text \<open>
  Claim C1, evaluated on the code. User \<open>u1\<close> stops chat 1 of session 19 while its consumer
  is active. When the call to Upstream throws (the abort after 100 s), the endpoint answers
  success with \<^verbatim>\<open>cleanup_completed = true\<close> and emits \<^verbatim>\<open>complete\<close> with
  \<^verbatim>\<open>completion_type = timeout_stopped\<close> to the room, but the consumer is still active
  and the user message of chat 1, not complete, is still in the transcript. When Upstream
  answers with status 500, the endpoint answers 500 and the state is as it was: nothing
  is cancelled, scrubbed or emitted.
\<close>

theorem stop_upstream_failure_keeps_consumer:
  "globalActiveConsumer live_state = Some \<lparr> consumerTag = ''socket_abc_19_1_1700000000000'' \<rparr>
   \<and> success (fst (stop_endpoint FetchThrows CancelReturns u1_stop live_state))
   \<and> cleanup_completed (fst (stop_endpoint FetchThrows CancelReturns u1_stop live_state)) = Some True
   \<and> emitted (snd (stop_endpoint FetchThrows CancelReturns u1_stop live_state)) =
           [(''chat_u1_19_1'',
             Complete ''Generation stopped (server timeout)'' (Some ''1'') (Some ''19'')
               None (Some ''timeout_stopped'') (Some 0)),
            (''chat_u1_19_1'',
             CleanupGeneration (Some ''u1'') ''19'' (Some ''1'') None ''stop_timeout'')]
   \<and> globalActiveConsumer (snd (stop_endpoint FetchThrows CancelReturns u1_stop live_state))
         = Some \<lparr> consumerTag = ''socket_abc_19_1_1700000000000'' \<rparr>
   \<and> map (\<lambda>m. (role m, chat_id m, isComplete m))
        (the (globalChatHistory
           (snd (stop_endpoint FetchThrows CancelReturns u1_stop live_state)) ''u1_19''))
       = [(User, Some ''1'', False)]
   \<and> http_status (fst (stop_endpoint (ReplyNotOk 500) CancelReturns u1_stop live_state)) = 500
   \<and> \<not> success (fst (stop_endpoint (ReplyNotOk 500) CancelReturns u1_stop live_state))
   \<and> cleanup_completed (fst (stop_endpoint (ReplyNotOk 500) CancelReturns u1_stop live_state)) = None
   \<and> snd (stop_endpoint (ReplyNotOk 500) CancelReturns u1_stop live_state) = live_state"
proof -
  have a: "globalActiveConsumer live_state = Some \<lparr> consumerTag = ''socket_abc_19_1_1700000000000'' \<rparr>"
    by (simp add: eval_defs)
  have e: "emitted live_state = []"
    by (simp add: eval_defs)
  have h: "map (\<lambda>m. (role m, chat_id m, isComplete m)) (the (globalChatHistory live_state ''u1_19''))
       = [(User, Some ''1'', False)]"
    by (simp add: eval_defs)
  have f: "forceCleanupConsumerForSession CancelReturns (Some ''u1'') ''19'' (Some ''1'') live_state
       = (False, live_state)"
    by (simp add: forceCleanupConsumerForSession_def a)
  have t: "snd (stop_endpoint FetchThrows CancelReturns u1_stop live_state) =
      emit ''chat_u1_19_1'' (CleanupGeneration (Some ''u1'') ''19'' (Some ''1'') None ''stop_timeout'')
        (emit ''chat_u1_19_1''
           (Complete ''Generation stopped (server timeout)'' (Some ''1'') (Some ''19'')
               None (Some ''timeout_stopped'') (Some 0)) live_state)"
    by (simp add: stop_endpoint_def stop_fallback_def stop_cleanup_def stop_finalUserId_def
          stop_roomId_def u1_stop_def f Let_def)
  have r: "success (fst (stop_endpoint FetchThrows CancelReturns u1_stop live_state))
      \<and> cleanup_completed (fst (stop_endpoint FetchThrows CancelReturns u1_stop live_state)) = Some True"
    by (simp add: stop_endpoint_def stop_fallback_def)
  show ?thesis
    unfolding t stop_not_ok_no_cleanup using a e h r by (simp add: emit_def)
qed

text \<open>
  Claim C2, evaluated on the code. The consumer of \<open>u1\<close>'s chat carries the tag
  \<^verbatim>\<open>socket_abc_19_1_1700000000000\<close>; the stop-path matcher looks for \<^verbatim>\<open>u1_19\<close> and
  \<^verbatim>\<open>u1_19_1\<close> in it, finds neither, answers \<open>False\<close> and leaves the state as it was.
\<close>

theorem stop_matcher_misses_socket_tag:
  "globalActiveConsumer live_state = Some \<lparr> consumerTag = ''socket_abc_19_1_1700000000000'' \<rparr>
   \<and> forceCleanupConsumerForSession CancelReturns (Some ''u1'') ''19'' (Some ''1'') live_state
       = (False, live_state)"
proof -
  have a: "globalActiveConsumer live_state = Some \<lparr> consumerTag = ''socket_abc_19_1_1700000000000'' \<rparr>"
    by (simp add: eval_defs)
  show ?thesis by (simp add: forceCleanupConsumerForSession_def a)
qed

text \<open>
  Claim C3, evaluated on the code. In \<open>streaming_state\<close> the tokens \<^verbatim>\<open>Hel\<close> and \<^verbatim>\<open>lo\<close> of
  chat 1 have arrived and its consumer is active. User \<open>u1\<close> stops chat 1, Upstream
  confirms the stop and the endpoint answers success with \<^verbatim>\<open>cleanup_completed = true\<close>;
  the transcript still holds the user message and the assistant message of chat 1,
  neither of them complete. The same request in \<open>offline_state\<close>, where no consumer is
  active, leaves the user message of chat 1 in the transcript, not complete.
\<close>

theorem stop_keeps_incomplete_messages:
  "globalActiveConsumer streaming_state = Some \<lparr> consumerTag = ''socket_abc_19_1_1700000000000'' \<rparr>
   \<and> success (fst (stop_endpoint (ReplyOk (BodyData \<lparr> data_status = Some ''success'', data_message = None \<rparr>))
                  CancelReturns u1_stop streaming_state))
   \<and> cleanup_completed
        (fst (stop_endpoint (ReplyOk (BodyData \<lparr> data_status = Some ''success'', data_message = None \<rparr>))
                  CancelReturns u1_stop streaming_state)) = Some True
   \<and> map (\<lambda>m. (role m, chat_id m, content m, isComplete m))
        (the (globalChatHistory
           (snd (stop_endpoint (ReplyOk (BodyData \<lparr> data_status = Some ''success'', data_message = None \<rparr>))
                   CancelReturns u1_stop streaming_state)) ''u1_19''))
       = [(User, Some ''1'', ''hi'', False), (Assistant, Some ''1'', ''Hello'', False)]
   \<and> globalActiveConsumer offline_state = None
   \<and> map (\<lambda>m. (role m, chat_id m, content m, isComplete m))
        (the (globalChatHistory
           (snd (stop_endpoint (ReplyOk (BodyData \<lparr> data_status = Some ''success'', data_message = None \<rparr>))
                   CancelReturns u1_stop offline_state)) ''u1_19''))
       = [(User, Some ''1'', ''hi'', False)]"
  by code_simp

section \<open>Properties of the session catalog\<close>

lemma nat_to_dec_15: "nat_to_dec 15 = ''15''"
  by code_simp

lemma window_keeps_below_25:
  assumes "length (filter (\<lambda>s. user_id s = (if truthy u then u else currentUserId g))
                     (globalSessionNames g)) < 25"
  shows "snd (manageSessionWindow u g) = g"
  using assms by (simp add: manageSessionWindow_def Let_def)

text \<open>
  Claim C4, evaluated on the code. User \<open>u1\<close> has the ten sessions 5 to 14 and creates
  another: \<^verbatim>\<open>manageSessionWindow\<close> evicts only from 25 sessions on, so the new session 15
  is added, nothing is evicted or reported, and the user has eleven sessions.
\<close>

theorem chatsession_eleventh_session:
  "length (filter (\<lambda>s. user_id s = Some ''u1'') (globalSessionNames full_window_state)) = 10
   \<and> cs_session_id (fst (chatsession new_session_request full_window_state)) = ''15''
   \<and> window_management (fst (chatsession new_session_request full_window_state)) = None
   \<and> map session_id (filter (\<lambda>s. user_id s = Some ''u1'')
        (globalSessionNames (snd (chatsession new_session_request full_window_state))))
      = [''15'', ''14'', ''13'', ''12'', ''11'', ''10'', ''9'', ''8'', ''7'', ''6'', ''5'']"
  by (simp add: chatsession_def manageSessionWindow_def getNextSessionId_def stored_user_def
      full_window_state_def new_session_request_def init_globals_def window_session_def
      or_else_def nat_to_dec_15 Let_def)

lemma map_of_map_set: "map_of (map_set k v m) k' = (if k' = k then Some v else map_of m k')"
  by (induction m) auto

lemma keys_map_set: "fst ` set (map_set k v m) = insert k (fst ` set m)"
  by (induction m) (force split: if_splits)+

lemma distinct_map_set: "distinct (map fst m) \<Longrightarrow> distinct (map fst (map_set k v m))"
proof (induction m)
  case Nil
  then show ?case by simp
next
  case (Cons a m)
  then show ?case
    by (cases a) (auto simp: keys_map_set image_iff)
qed

lemma set_map_set: "set (map_set k v m) \<subseteq> insert (k, v) (set m)"
  by (induction m) (auto split: if_splits)

lemma keyed_map_set:
  assumes "keyed user m" "session_id (fst v) = k" "user_id (fst v) = Some user"
  shows "keyed user (map_set k v m)"
  using assms set_map_set[of k v m] unfolding keyed_def
  by (auto simp: distinct_map_set)

lemma keyed_add_existing:
  "keyed user m \<Longrightarrow> user_id s = Some user \<Longrightarrow> keyed user (add_existing m s)"
  by (simp add: add_existing_def keyed_map_set)

lemma keyed_existing:
  "\<forall>s \<in> set ss. user_id s = Some user \<Longrightarrow> keyed user m \<Longrightarrow> keyed user (foldl add_existing m ss)"
  by (induction ss arbitrary: m) (auto simp: keyed_add_existing)

lemma keyed_lookup:
  "keyed user m \<Longrightarrow> map_of m k = Some v \<Longrightarrow> session_id (fst v) = k \<and> user_id (fst v) = Some user"
  unfolding keyed_def by (auto dest!: map_of_SomeD)

lemma keyed_add_rabbit: "keyed user m \<Longrightarrow> keyed user (add_rabbit user m p)"
  by (auto simp: add_rabbit_def Let_def split: option.splits
           intro!: keyed_map_set dest: keyed_lookup)

lemma keyed_rabbit: "keyed user m \<Longrightarrow> keyed user (foldl (add_rabbit user) m ps)"
  by (induction ps arbitrary: m) (auto simp: keyed_add_rabbit)

lemma title_add_rabbit:
  "\<exists>v. map_of (add_rabbit user m p) (fst p) = Some v \<and> title (fst v) = snd p"
  by (auto simp: add_rabbit_def Let_def map_of_map_set split: option.splits)

lemma other_add_rabbit:
  "k \<noteq> fst p \<Longrightarrow> map_of (add_rabbit user m p) k = map_of m k"
  by (auto simp: add_rabbit_def Let_def map_of_map_set split: option.splits)

lemma title_rabbit:
  "map_of (rev ps) sid = Some t \<Longrightarrow>
   \<exists>v. map_of (foldl (add_rabbit user) m ps) sid = Some v \<and> title (fst v) = t"
proof (induction ps arbitrary: m rule: rev_induct)
  case Nil
  then show ?case by simp
next
  case (snoc p ps)
  show ?case
  proof (cases "fst p = sid")
    case True
    with snoc.prems have "snd p = t" by (cases p) auto
    with True title_add_rabbit[of user "foldl (add_rabbit user) m ps" p]
    show ?thesis by auto
  next
    case False
    with snoc.prems have "map_of (rev ps) sid = Some t" by (cases p) auto
    from snoc.IH[OF this, of m] False show ?thesis
      by (auto simp: other_add_rabbit)
  qed
qed

lemma keyed_filter:
  assumes "keyed user m" "map_of m k = Some v"
  shows "filter (\<lambda>s. user_id s = Some user \<and> session_id s = k) (map (\<lambda>kv. fst (snd kv)) m) = [fst v]"
  using assms unfolding keyed_def
proof (induction m)
  case Nil
  then show ?case by simp
next
  case (Cons a m)
  obtain k' v' where a: "a = (k', v')" by (cases a)
  show ?case
  proof (cases "k' = k")
    case True
    with Cons.prems a have v: "v' = v" by simp
    have "\<forall>kv \<in> set m. fst kv \<noteq> k" using Cons.prems(1) a True by (auto simp: image_iff)
    moreover have "\<forall>kv \<in> set m. session_id (fst (snd kv)) = fst kv" using Cons.prems(1) by auto
    ultimately have "filter (\<lambda>s. user_id s = Some user \<and> session_id s = k) (map (\<lambda>kv. fst (snd kv)) m) = []"
      by (auto simp: filter_empty_conv)
    with Cons.prems(1) a True v show ?thesis by auto
  next
    case False
    with Cons.prems a have "map_of m k = Some v" by simp
    moreover from Cons.prems(1) have "distinct (map fst m)
      \<and> (\<forall>kv \<in> set m. session_id (fst (snd kv)) = fst kv \<and> user_id (fst (snd kv)) = Some user)" by auto
    ultimately have "filter (\<lambda>s. user_id s = Some user \<and> session_id s = k) (map (\<lambda>kv. fst (snd kv)) m) = [fst v]"
      using Cons.IH by blast
    moreover have "session_id (fst v') = k'" using Cons.prems(1) a by auto
    ultimately show ?thesis using a False by auto
  qed
qed

lemma keyed_empty: "keyed user []"
  by (simp add: keyed_def)

lemma sync_title_decoded:
  assumes "map_of (rev (transformedSessions user payload)) sid = Some t"
  shows "map title (filter (\<lambda>s. user_id s = Some user \<and> session_id s = sid)
            (globalSessionNames (sessionName_sync user payload g))) = [t]"
proof -
  let ?ps = "transformedSessions user payload"
  let ?cur = "filter (\<lambda>s. user_id s = Some user) (globalSessionNames g)"
  let ?m = "foldl (add_rabbit user) (foldl add_existing [] ?cur) ?ps"
  from assms have ne: "?ps \<noteq> []" by auto
  have k: "keyed user ?m"
    by (intro keyed_rabbit keyed_existing keyed_empty) simp
  from title_rabbit[OF assms] obtain v where v: "map_of ?m sid = Some v" "title (fst v) = t"
    by blast
  have "filter (\<lambda>s. user_id s = Some user \<and> session_id s = sid)
            (globalSessionNames (sessionName_sync user payload g))
        = filter (\<lambda>s. user_id s = Some user \<and> session_id s = sid) (map (\<lambda>kv. fst (snd kv)) ?m)"
    using ne by (simp add: sessionName_sync_def Let_def deduplicatedSessions_def filter_empty_conv)
  also have "\<dots> = [fst v]" using keyed_filter[OF k v(1)] .
  finally show ?thesis using v(2) by simp
qed

lemma reconcile_not_cached:
  "currentUserId reconcile_state = Some ''u1''" "\<not> served_from_cache ''u1'' reconcile_state"
  by (simp_all add: reconcile_state_def init_globals_def served_from_cache_def)

lemma reconcile_endpoint:
  "sessionName_endpoint now (Some payload) reconcile_state
     = sessionName_sync ''u1'' payload reconcile_state"
  by (simp add: sessionName_endpoint_def reconcile_not_cached)

text \<open>
  Claim C7, as amended. The payload of a session-index sync for \<open>user\<close> lists the sessions
  \<open>ps\<close> for the user when it is the array of pairs \<open>ps\<close>, when it is an object for the user
  with the sessions \<open>ps\<close>, or when it is an array of objects whose first element has a
  \<^verbatim>\<open>user_id\<close> and \<^verbatim>\<open>sessions\<close> and whose first object for the user has the sessions \<open>ps\<close>.
  After the sync every session id of \<open>ps\<close> has exactly one entry in the user's catalog,
  and its title is the one \<open>ps\<close> gives for that id (the last one, should \<open>ps\<close> list the id
  twice).
\<close>

theorem sync_upstream_title:
  assumes "payload = PairArray ps
         \<or> payload = UserObject (Some user) (Some ps)
         \<or> (\<exists>first rest. payload = UserObjectArray (first # rest)
               \<and> truthy (fst first) \<and> snd first \<noteq> None
               \<and> find (\<lambda>item. fst item = Some user) (first # rest) = Some (Some user, Some ps))"
      and "map_of (rev ps) sid = Some t"
  shows "map title (filter (\<lambda>s. user_id s = Some user \<and> session_id s = sid)
            (globalSessionNames (sessionName_sync user payload g))) = [t]"
proof -
  from assms(1) have "transformedSessions user payload = ps" by auto
  with assms(2) show ?thesis by (intro sync_title_decoded) simp
qed

text \<open>
  Witness for C7: a request of \<open>u1\<close> that is not served from the catalog. Session 15,
  locally titled \<^verbatim>\<open>Chat Session 15\<close>, takes Upstream's title, in each of the three shapes
  of the payload.
\<close>

theorem sync_upstream_title_witness:
  "\<not> served_from_cache ''u1'' reconcile_state
   \<and> map_of (rev [(''15'', ''Debugging crash''), (''14'', ''Bug triage''), (''13'', ''...'')]) ''15''
       = Some ''Debugging crash''
   \<and> map_of (rev [(''15'', ''Debugging crash''), (''14'', ''Bug triage'')]) ''15''
       = Some ''Debugging crash''
   \<and> map title (filter (\<lambda>s. user_id s = Some ''u1'' \<and> session_id s = ''15'')
            (globalSessionNames reconcile_state)) = [''Chat Session 15'']
   \<and> map title (filter (\<lambda>s. user_id s = Some ''u1'' \<and> session_id s = ''15'')
            (globalSessionNames
               (sessionName_endpoint 1700000000000 (Some reconcile_payload) reconcile_state)))
       = [''Debugging crash'']
   \<and> map title (filter (\<lambda>s. user_id s = Some ''u1'' \<and> session_id s = ''15'')
            (globalSessionNames
               (sessionName_endpoint 1700000000000 (Some reconcile_object) reconcile_state)))
       = [''Debugging crash'']
   \<and> map title (filter (\<lambda>s. user_id s = Some ''u1'' \<and> session_id s = ''15'')
            (globalSessionNames
               (sessionName_endpoint 1700000000000 (Some reconcile_objects) reconcile_state)))
       = [''Debugging crash'']"
proof -
  let ?long = "[(''15'', ''Debugging crash''), (''14'', ''Bug triage''), (''13'', ''...'')]"
  let ?short = "[(''15'', ''Debugging crash''), (''14'', ''Bug triage'')]"
  have l: "map_of (rev ?long) ''15'' = Some ''Debugging crash''"
   and s: "map_of (rev ?short) ''15'' = Some ''Debugging crash''"
    by simp_all
  have b: "map title (filter (\<lambda>s. user_id s = Some ''u1'' \<and> session_id s = ''15'')
            (globalSessionNames reconcile_state)) = [''Chat Session 15'']"
    by (simp add: reconcile_state_def init_globals_def)
  have p1: "reconcile_payload = PairArray ?long
         \<or> reconcile_payload = UserObject (Some ''u1'') (Some ?long)
         \<or> (\<exists>first rest. reconcile_payload = UserObjectArray (first # rest)
               \<and> truthy (fst first) \<and> snd first \<noteq> None
               \<and> find (\<lambda>item. fst item = Some ''u1'') (first # rest) = Some (Some ''u1'', Some ?long))"
    by (simp add: reconcile_payload_def)
  have p2: "reconcile_object = PairArray ?short
         \<or> reconcile_object = UserObject (Some ''u1'') (Some ?short)
         \<or> (\<exists>first rest. reconcile_object = UserObjectArray (first # rest)
               \<and> truthy (fst first) \<and> snd first \<noteq> None
               \<and> find (\<lambda>item. fst item = Some ''u1'') (first # rest) = Some (Some ''u1'', Some ?short))"
    by (simp add: reconcile_object_def)
  have p3: "reconcile_objects = PairArray ?short
         \<or> reconcile_objects = UserObject (Some ''u1'') (Some ?short)
         \<or> (\<exists>first rest. reconcile_objects = UserObjectArray (first # rest)
               \<and> truthy (fst first) \<and> snd first \<noteq> None
               \<and> find (\<lambda>item. fst item = Some ''u1'') (first # rest) = Some (Some ''u1'', Some ?short))"
    by (simp add: reconcile_objects_def)
  from sync_upstream_title[OF p1 l, of reconcile_state]
       sync_upstream_title[OF p2 s, of reconcile_state]
       sync_upstream_title[OF p3 s, of reconcile_state]
       l s b reconcile_not_cached(2)
  show ?thesis by (simp add: reconcile_endpoint)
qed

text \<open>
  Counterexample to C7 as stated: two payloads that name session 15 of \<open>u1\<close> as
  \<^verbatim>\<open>Debugging crash\<close>. In the first the array holds two objects for \<open>u1\<close> and session 15
  is in the second, which is not read; in the second the first object of the array has
  no \<^verbatim>\<open>sessions\<close>, and the array is not read. After the sync the title of session 15 is
  still \<^verbatim>\<open>Chat Session 15\<close>.
\<close>

theorem sync_unread_payload_counterexample:
  "\<not> served_from_cache ''u1'' reconcile_state
   \<and> map title (filter (\<lambda>s. user_id s = Some ''u1'' \<and> session_id s = ''15'')
            (globalSessionNames
               (sessionName_endpoint 1700000000000 (Some split_payload) reconcile_state)))
       = [''Chat Session 15'']
   \<and> map title (filter (\<lambda>s. user_id s = Some ''u1'' \<and> session_id s = ''15'')
            (globalSessionNames
               (sessionName_endpoint 1700000000000 (Some headless_payload) reconcile_state)))
       = [''Chat Session 15'']"
  by (simp add: reconcile_endpoint reconcile_not_cached sessionName_sync_def split_payload_def
        headless_payload_def)
     (simp add: reconcile_state_def init_globals_def deduplicatedSessions_def add_existing_def
        add_rabbit_def)


section \<open>Properties of admission\<close>

lemma u1_prompt_valid:
  "truthy (stored_user (cr_user_id u1_prompt) (counted_state n))"
  "truthy (cr_session_id u1_prompt)" "truthy (cr_prompt u1_prompt)"
  "chat_sessionKey u1_prompt (counted_state n) = ''u1_19''"
  "currentCount u1_prompt (counted_state n) = n"
  by (simp_all add: u1_prompt_def counted_state_def stored_user_def chat_sessionKey_def
      currentCount_def init_globals_def)

text \<open>
  Claim C9, as amended. A prompt that names its user, session and text is rejected with
  the limit error exactly when the recorded count for the user and session is 15 or more,
  and then nothing changes; otherwise it is admitted and the count goes up by one.
\<close>

theorem chat_admission:
  assumes "truthy (stored_user (cr_user_id req) g)"
      and "truthy (cr_session_id req)" and "truthy (cr_prompt req)"
  shows "(fst (chat_begin req g) = LimitReached \<longleftrightarrow> 15 \<le> currentCount req g)
       \<and> (15 \<le> currentCount req g \<longrightarrow> snd (chat_begin req g) = g)
       \<and> (currentCount req g < 15 \<longrightarrow>
            fst (chat_begin req g) = Admitted
            \<and> sessionMessageCounts (snd (chat_begin req g)) (chat_sessionKey req g)
                = Some (currentCount req g + 1))"
  using assms by (simp add: chat_begin_def Let_def)

text \<open>Witness for C9: the fifteenth prompt is admitted, the sixteenth is rejected.\<close>

theorem chat_admission_witness:
  "truthy (stored_user (cr_user_id u1_prompt) (counted_state 14))
   \<and> truthy (cr_session_id u1_prompt) \<and> truthy (cr_prompt u1_prompt)
   \<and> currentCount u1_prompt (counted_state 14) = 14
   \<and> fst (chat_begin u1_prompt (counted_state 14)) = Admitted
   \<and> sessionMessageCounts (snd (chat_begin u1_prompt (counted_state 14))) ''u1_19'' = Some 15
   \<and> currentCount u1_prompt (counted_state 15) = 15
   \<and> fst (chat_begin u1_prompt (counted_state 15)) = LimitReached
   \<and> snd (chat_begin u1_prompt (counted_state 15)) = counted_state 15"
  using chat_admission [of u1_prompt "counted_state 14"]
        chat_admission [of u1_prompt "counted_state 15"]
  by (simp add: u1_prompt_valid)

text \<open>
  Counterexample to C9 as stated: with a recorded count of 15, which does not exceed 15,
  the prompt is rejected.
\<close>

theorem chat_limit_counterexample:
  "\<not> (fst (chat_begin u1_prompt (counted_state 15)) = LimitReached
        \<longleftrightarrow> 15 < currentCount u1_prompt (counted_state 15))"
  by (simp add: chat_begin_def Let_def u1_prompt_valid)

section \<open>Properties of logout\<close>

lemma flush_socket_state:
  "tokenBuffers (flushAllGlobalVariables g) = tokenBuffers g
   \<and> globalStreamingSessions (flushAllGlobalVariables g) = globalStreamingSessions g
   \<and> globalActiveConsumer (flushAllGlobalVariables g) = globalActiveConsumer g"
  by (simp add: flushAllGlobalVariables_def)

lemma live_socket_state:
  "tokenBuffers live_state ''u1_19'' = Some (new_buffer ''7'')"
  "globalStreamingSessions live_state ''u1_19'' \<noteq> None"
  "globalActiveConsumer live_state \<noteq> None"
  by (simp_all add: eval_defs getModelNameFromId_def MODEL_TYPES_def)

text \<open>
  Claim C8, evaluated on the code. While \<open>u1\<close>'s chat is streaming, the flush that logout
  performs leaves the parser buffer and the active-stream entry of \<^verbatim>\<open>u1_19\<close> and the
  active consumer in place.
\<close>

theorem flush_keeps_socket_state:
  "tokenBuffers (flushAllGlobalVariables live_state) ''u1_19'' = Some (new_buffer ''7'')
   \<and> globalStreamingSessions (flushAllGlobalVariables live_state) ''u1_19'' \<noteq> None
   \<and> globalActiveConsumer (flushAllGlobalVariables live_state) \<noteq> None"
  by (simp add: flushAllGlobalVariables_def live_socket_state)

section \<open>Properties of the thinking parser\<close>

lemma js_includes_sublist: "js_includes s p \<longleftrightarrow> sublist p s"
  by (induction s) (auto simp: sublist_Cons_right)

lemma sublist_trans: "sublist xs ys \<Longrightarrow> sublist ys zs \<Longrightarrow> sublist xs zs"
  by (rule sublist_order.order_trans)

lemma sublist_trim: "sublist (trim s) s"
proof -
  have "prefix (rev (dropWhile is_space (rev (dropWhile is_space s)))) (dropWhile is_space s)"
    by (metis suffix_dropWhile suffix_to_prefix rev_rev_ident)
  then have "sublist (trim s) (dropWhile is_space s)"
    unfolding trim_def by (rule prefix_imp_sublist)
  moreover have "sublist (dropWhile is_space s) s" by simp
  ultimately show ?thesis by (rule sublist_trans)
qed

lemma sublist_substring: "sublist (substring s a b) s"
proof -
  have "sublist (take n (drop k s)) (drop k s)" for n k by simp
  moreover have "sublist (drop k s) s" for k by simp
  ultimately have "sublist (take n (drop k s)) s" for n k
    by (rule sublist_trans)
  then show ?thesis by (simp add: substring_def Let_def)
qed

lemma suffix_substring_from: "suffix (substring_from s a) s"
  by (simp add: substring_from_def suffix_drop)

lemma pending_contents_append [simp]:
  "pending_contents (xs @ ys) = pending_contents xs @ pending_contents ys"
  by (simp add: pending_contents_def)

lemma pending_contents_Nil [simp]: "pending_contents [] = []"
  by (simp add: pending_contents_def)

lemma split_at_move:
  assumes "xs @ ys = pre @ m # post" and "\<forall>e \<in> set ys. \<not> is_move e" and "is_move m"
  shows "\<exists>post0. xs = pre @ m # post0 \<and> post = post0 @ ys"
proof -
  from assms(1) obtain us where
    "(xs = pre @ us \<and> us @ ys = m # post) \<or> (xs @ us = pre \<and> ys = us @ m # post)"
    by (auto simp: append_eq_append_conv2)
  then show ?thesis
  proof
    assume a: "xs = pre @ us \<and> us @ ys = m # post"
    show ?thesis
    proof (cases us)
      case Nil
      with a assms(2,3) show ?thesis by auto
    next
      case (Cons u us')
      with a show ?thesis by auto
    qed
  next
    assume "xs @ us = pre \<and> ys = us @ m # post"
    with assms(2,3) show ?thesis by auto
  qed
qed

lemma moves_ok_none: "\<forall>e \<in> set tr. \<not> is_move e \<Longrightarrow> moves_ok full tr"
  unfolding moves_ok_def
proof (intro allI impI)
  fix pre rm X c s mid pend post
  assume a: "\<forall>e \<in> set tr. \<not> is_move e" and "tr = pre @ (rm, MoveToThinking X c s mid pend) # post"
  then have "(rm, MoveToThinking X c s mid pend) \<in> set tr" by simp
  with a have "\<not> is_move (rm, MoveToThinking X c s mid pend)" by blast
  then show "X \<noteq> [] \<and> sublist X full \<and> pend = pending_contents pre
          \<and> (\<exists>post'. post = (rm, ThinkingComplete c s) # post')"
    by (simp add: is_move_def)
qed

lemma moves_ok_extend:
  assumes "moves_ok full tr" and "\<forall>e \<in> set evs. \<not> is_move e"
  shows "moves_ok (full @ t) (tr @ evs)"
  unfolding moves_ok_def
proof (intro allI impI)
  fix pre rm X c s mid pend post
  assume eq: "tr @ evs = pre @ (rm, MoveToThinking X c s mid pend) # post"
  have "is_move (rm, MoveToThinking X c s mid pend)" by (simp add: is_move_def)
  from split_at_move[OF eq assms(2) this] obtain post0 where
    p: "tr = pre @ (rm, MoveToThinking X c s mid pend) # post0" "post = post0 @ evs" by blast
  with assms(1) have "X \<noteq> [] \<and> sublist X full \<and> pend = pending_contents pre
          \<and> (\<exists>post'. post0 = (rm, ThinkingComplete c s) # post')"
    unfolding moves_ok_def by blast
  moreover have "sublist X full \<Longrightarrow> sublist X (full @ t)"
    by (meson sublist_trans sublist_append_rightI)
  ultimately show "X \<noteq> [] \<and> sublist X (full @ t) \<and> pend = pending_contents pre
          \<and> (\<exists>post'. post = (rm, ThinkingComplete c s) # post')"
    using p(2) by auto
qed

lemma moves_ok_new:
  assumes "\<forall>e \<in> set tr. \<not> is_move e" and "X \<noteq> []" and "sublist X full"
  shows "moves_ok full (tr @ [(rm, MoveToThinking X c s mid (pending_contents tr)),
                             (rm, ThinkingComplete c s)])"
  unfolding moves_ok_def
proof (intro allI impI)
  fix pre post :: "emission list" and rm' X' c' s' :: string and mid' pend'
  let ?m = "(rm', MoveToThinking X' c' s' mid' pend')"
  assume eq: "tr @ [(rm, MoveToThinking X c s mid (pending_contents tr)),
                             (rm, ThinkingComplete c s)] = pre @ ?m # post"
  have m: "is_move ?m" by (simp add: is_move_def)
  have "(tr @ [(rm, MoveToThinking X c s mid (pending_contents tr))]) @ [(rm, ThinkingComplete c s)]
        = pre @ ?m # post" using eq by simp
  from split_at_move[OF this _ m] obtain post0 where
    p: "tr @ [(rm, MoveToThinking X c s mid (pending_contents tr))] = pre @ ?m # post0"
       "post = post0 @ [(rm, ThinkingComplete c s)]"
    by (auto simp: is_move_def)
  have "post0 = []"
  proof (rule ccontr)
    assume "post0 \<noteq> []"
    then obtain q qs where "post0 = qs @ [q]" by (metis rev_exhaust)
    with p(1) have "tr = pre @ ?m # qs" by simp
    with assms(1) m show False by auto
  qed
  with p show "X' \<noteq> [] \<and> sublist X' full \<and> pend' = pending_contents pre
          \<and> (\<exists>post'. post = (rm', ThinkingComplete c' s') # post')"
    using assms(2,3) by auto
qed

lemma suffix_snoc_both: "suffix xs ys \<Longrightarrow> suffix (xs @ zs) (ys @ zs)"
  by (auto simp: suffix_def)

lemma plain_stream_quiet [simp]:
  "\<not> is_move (room, plain_stream text c s)" "pending_of (room, plain_stream text c s) = []"
  by (simp_all add: is_move_def pending_of_def plain_stream_def)

lemma pending_contents_quiet:
  "\<forall>e \<in> set evs. pending_of e = [] \<Longrightarrow> pending_contents evs = []"
  by (induction evs) (auto simp: pending_contents_def)

lemma well_plain:
  assumes "well b0 tr" and "\<not> isInThinking b0"
      and "fullContent b = fullContent b0 @ t" and "tokens b = tokens b0 @ [t]"
      and "\<not> isInThinking b" and "hasThinkingStarted b = hasThinkingStarted b0"
      and "pendingThinkingTokens b = pendingThinkingTokens b0"
      and "\<forall>e \<in> set evs. \<not> is_move e \<and> pending_of e = []"
  shows "well b (tr @ evs)"
proof -
  have q: "pending_contents evs = []" using assms(8) by (simp add: pending_contents_quiet)
  from assms(1) have "moves_ok (fullContent b0) tr" unfolding well_def by blast
  then have "moves_ok (fullContent b0 @ t) (tr @ evs)"
    using assms(8) by (intro moves_ok_extend) auto
  then have m: "moves_ok (fullContent b) (tr @ evs)" by (simp only: assms(3))
  show ?thesis
    using assms q m unfolding well_def by auto
qed

lemma after_thinking_fields:
  assumes "after_thinking cfg e b = (ret, b')"
  shows "fullContent b' = fullContent b \<and> tokens b' = tokens b \<and> isInThinking b' = isInThinking b
       \<and> hasThinkingStarted b' = hasThinkingStarted b \<and> model b' = model b"
  using assms by (auto simp: after_thinking_def Let_def split: if_splits)

lemma thinking_started_well:
  assumes w: "well b0 tr" and n: "\<not> hasThinkingStarted b0" and s: "supports (model b0)"
      and r: "thinking_started now key chat sess cfg (push_token t b0) hist = (ret, b2, hist', evs)"
  shows "well b2 (tr @ map (Pair room) evs) \<and> model b2 = model b0"
proof (cases "empty_thinking cfg (push_token t b0)")
  case (Some clean)
  with r have e: "b2 = push_token t b0" "evs = []" by (auto simp: thinking_started_def)
  from w n have "\<not> isInThinking b0" by (auto simp: well_def)
  with w n have "well (push_token t b0) (tr @ [])"
    by (intro well_plain[where ?b0.0=b0 and t=t]) (auto simp: push_token_def)
  with e show ?thesis by (simp add: push_token_def)
next
  case None
  let ?b1 = "push_token t b0"
  let ?i = "indexOf (fullContent ?b1) (thinking_start cfg)"
  from None r have b2: "b2 = ?b1\<lparr> isInThinking := True, hasThinkingStarted := True,
                 thinkingMessageId := Some (''thinking_'' @ key @ ''_'' @ now),
                 buf_thinkingContent :=
                   substring_from (fullContent ?b1) (?i + int (length (thinking_start cfg))) \<rparr>"
    and evs: "evs = (if trim (substring (fullContent ?b1) 0 ?i) \<noteq> []
                     then [plain_stream (substring (fullContent ?b1) 0 ?i) chat sess] else [])"
    by (auto simp: thinking_started_def Let_def)
  have q: "\<forall>e \<in> set (map (Pair room) evs). \<not> is_move e \<and> pending_of e = []"
    using evs by auto
  then have pq: "pending_contents (map (Pair room) evs) = []" by (simp add: pending_contents_quiet)
  from w n have base: "pendingThinkingTokens b0 = []" "pending_contents tr = []"
    "\<forall>e \<in> set tr. \<not> is_move e" "fullContent b0 = concat (tokens b0)"
    by (auto simp: well_def)
  have nm: "\<forall>e \<in> set (tr @ map (Pair room) evs). \<not> is_move e" using base(3) q by auto
  have "well b2 (tr @ map (Pair room) evs)"
    unfolding well_def
    using base pq nm s
    by (auto simp: b2 push_token_def suffix_substring_from moves_ok_none)
  then show ?thesis by (simp add: b2 push_token_def)
qed

lemma pending_stream_props:
  assumes "pending_stream cfg t chat sess b = (b', ev1)"
  shows "b' = b\<lparr> pendingThinkingTokens := pendingThinkingTokens b @ pending_contents (map (Pair room) ev1) \<rparr>
       \<and> (\<forall>e \<in> set (map (Pair room) ev1). \<not> is_move e)"
  using assms
  by (auto simp: pending_stream_def pending_contents_def pending_of_def is_move_def split: if_splits)

lemma thinking_ended_props:
  assumes "thinking_ended key chat sess cfg endIndex b hist = (ret, b', hist', ev2)"
  shows "fullContent b' = fullContent b \<and> tokens b' = tokens b \<and> \<not> isInThinking b'
       \<and> hasThinkingStarted b' = hasThinkingStarted b \<and> model b' = model b
       \<and> (ev2 = [] \<or> (\<exists>X. X \<noteq> [] \<and> sublist X (buf_thinkingContent b)
              \<and> ev2 = [MoveToThinking X chat sess (thinkingMessageId b) (pendingThinkingTokens b),
                        ThinkingComplete chat sess]))"
proof -
  let ?X = "trim (substring (buf_thinkingContent b) 0 endIndex)"
  let ?b3 = "b\<lparr> isInThinking := False, pendingThinkingTokens := [], thinkingMessageId := None \<rparr>"
  obtain r0 b4 where a: "after_thinking cfg endIndex ?b3 = (r0, b4)" by (cases "after_thinking cfg endIndex ?b3")
  with assms have e: "b' = b4"
    "ev2 = (if ?X \<noteq> [] then [MoveToThinking ?X chat sess (thinkingMessageId b) (pendingThinkingTokens b),
                 ThinkingComplete chat sess] else [])"
    by (simp_all add: thinking_ended_def Let_def)
  have "sublist ?X (buf_thinkingContent b)"
    by (meson sublist_trans sublist_trim sublist_substring)
  with after_thinking_fields[OF a] e show ?thesis by auto
qed

lemma in_thinking_well:
  assumes w: "well b0 tr" and i: "isInThinking b0"
      and r: "in_thinking t key chat sess cfg (push_token t b0) hist = (ret, b2, hist', evs)"
  shows "well b2 (tr @ map (Pair room) evs) \<and> model b2 = model b0"
proof -
  let ?b1 = "(push_token t b0)\<lparr> buf_thinkingContent := buf_thinkingContent (push_token t b0) @ t \<rparr>"
  obtain b ev1 where p: "pending_stream cfg t chat sess ?b1 = (b, ev1)"
    by (cases "pending_stream cfg t chat sess ?b1")
  let ?tr1 = "tr @ map (Pair room) ev1"
  from w i have base: "hasThinkingStarted b0" "supports (model b0)"
      "pendingThinkingTokens b0 = pending_contents tr"
      "suffix (buf_thinkingContent b0) (fullContent b0)" "\<forall>e \<in> set tr. \<not> is_move e"
      "fullContent b0 = concat (tokens b0)"
    unfolding well_def by blast+
  from pending_stream_props[OF p, of room]
  have b: "b = ?b1\<lparr> pendingThinkingTokens := pendingThinkingTokens ?b1 @ pending_contents (map (Pair room) ev1) \<rparr>"
    and nm: "\<forall>e \<in> set (map (Pair room) ev1). \<not> is_move e" by blast+
  have tc: "buf_thinkingContent b = buf_thinkingContent b0 @ t"
    and full: "fullContent b = fullContent b0 @ t" and tok: "tokens b = tokens b0 @ [t]"
    and flags: "isInThinking b" "hasThinkingStarted b" "model b = model b0"
    and pend0: "pendingThinkingTokens b = pendingThinkingTokens b0 @ pending_contents (map (Pair room) ev1)"
    using i base(1) by (simp_all add: b push_token_def)
  have suf: "suffix (buf_thinkingContent b) (fullContent b)"
    using base(4) by (simp only: tc full suffix_snoc_both)
  have pend: "pendingThinkingTokens b = pending_contents ?tr1"
    using base(3) pend0 by simp
  have nm1: "\<forall>e \<in> set ?tr1. \<not> is_move e"
    using base(5) nm by auto
  have cat: "fullContent b = concat (tokens b)" using base(6) by (simp add: full tok)
  show ?thesis
  proof (cases "thinking_end_index cfg b")
    case None
    with r p have e: "b2 = b" "evs = ev1"
      by (simp_all add: in_thinking_def)
    have "well b ?tr1"
      unfolding well_def using suf pend nm1 flags base(2) cat
      by (simp add: moves_ok_none)
    with e flags show ?thesis by simp
  next
    case (Some endIndex)
    obtain r0 b4 h4 ev2 where te: "thinking_ended key chat sess cfg endIndex b hist = (r0, b4, h4, ev2)"
      by (cases "thinking_ended key chat sess cfg endIndex b hist") auto
    with Some r p have e: "b2 = b4" "evs = ev1 @ ev2"
      by (simp_all add: in_thinking_def)
    from thinking_ended_props[OF te] have f: "fullContent b4 = fullContent b" "tokens b4 = tokens b"
      "\<not> isInThinking b4" "hasThinkingStarted b4" "model b4 = model b"
      and shape: "ev2 = [] \<or> (\<exists>X. X \<noteq> [] \<and> sublist X (buf_thinkingContent b)
              \<and> ev2 = [MoveToThinking X chat sess (thinkingMessageId b) (pendingThinkingTokens b),
                        ThinkingComplete chat sess])"
      using flags(2) by blast+
    have mo: "moves_ok (fullContent b) (?tr1 @ map (Pair room) ev2)"
      using shape
    proof
      assume "ev2 = []"
      then show ?thesis using nm1 by (simp add: moves_ok_none)
    next
      assume "\<exists>X. X \<noteq> [] \<and> sublist X (buf_thinkingContent b)
              \<and> ev2 = [MoveToThinking X chat sess (thinkingMessageId b) (pendingThinkingTokens b),
                        ThinkingComplete chat sess]"
      then obtain X where X: "X \<noteq> []" "sublist X (buf_thinkingContent b)"
        "ev2 = [MoveToThinking X chat sess (thinkingMessageId b) (pendingThinkingTokens b),
                        ThinkingComplete chat sess]" by blast
      from X(2) suf have sub: "sublist X (fullContent b)"
        by (metis sublist_trans suffix_imp_sublist)
      have "moves_ok (fullContent b)
              (?tr1 @ [(room, MoveToThinking X chat sess (thinkingMessageId b) (pending_contents ?tr1)),
                       (room, ThinkingComplete chat sess)])"
        using nm1 X(1) sub by (rule moves_ok_new)
      then show ?thesis by (simp only: X(3) pend list.map)
    qed
    have "well b4 (?tr1 @ map (Pair room) ev2)"
      unfolding well_def using f mo cat by simp
    with e f flags show ?thesis by simp
  qed
qed

lemma parse_token_well:
  assumes w: "well b0 tr"
      and r: "parse_token now t key chat sess (push_token t b0) hist = (ret, b2, hist', evs)"
  shows "well b2 (tr @ map (Pair room) evs) \<and> model b2 = model b0"
proof -
  let ?b1 = "push_token t b0"
  have m1: "model ?b1 = model b0" by (simp add: push_token_def)
  have plain: "well b (tr @ map (Pair room) evs') \<and> model b = model b0"
    if "\<not> isInThinking b0" "fullContent b = fullContent b0 @ t" "tokens b = tokens b0 @ [t]"
       "\<not> isInThinking b" "hasThinkingStarted b = hasThinkingStarted b0"
       "pendingThinkingTokens b = pendingThinkingTokens b0" "model b = model b0"
       "\<forall>e \<in> set (map (Pair room) evs'). \<not> is_move e \<and> pending_of e = []" for b evs'
    using well_plain[OF w that(1-6,8)] that(7) by simp
  show ?thesis
  proof (cases "MODEL_TYPES (model b0)")
    case None
    with r m1 have e: "b2 = ?b1" "evs = []" by (auto simp: parse_token_def)
    from None w have "\<not> isInThinking b0" by (auto simp: well_def supports_def)
    then show ?thesis unfolding e by (intro plain) (auto simp: push_token_def)
  next
    case (Some cfg)
    show ?thesis
    proof (cases "supports_thinking cfg")
      case False
      with Some r m1 have e: "b2 = ?b1" "evs = []" by (auto simp: parse_token_def)
      from False Some w have "\<not> isInThinking b0" by (auto simp: well_def supports_def)
      then show ?thesis unfolding e by (intro plain) (auto simp: push_token_def)
    next
      case True
      with Some have sup: "supports (model b0)" by (simp add: supports_def)
      consider (A) "thinking_start cfg \<noteq> [] \<and> js_includes (fullContent ?b1) (thinking_start cfg)
                  \<and> \<not> hasThinkingStarted ?b1"
        | (B) "\<not> (thinking_start cfg \<noteq> [] \<and> js_includes (fullContent ?b1) (thinking_start cfg)
                  \<and> \<not> hasThinkingStarted ?b1)" "isInThinking ?b1"
        | (C) "\<not> (thinking_start cfg \<noteq> [] \<and> js_includes (fullContent ?b1) (thinking_start cfg)
                  \<and> \<not> hasThinkingStarted ?b1)" "\<not> isInThinking ?b1"
        by blast
      then show ?thesis
      proof cases
        case A
        with Some True r m1 have "thinking_started now key chat sess cfg ?b1 hist = (ret, b2, hist', evs)"
          by (auto simp: parse_token_def)
        moreover from A have "\<not> hasThinkingStarted b0" by (simp add: push_token_def)
        ultimately show ?thesis using thinking_started_well[OF w _ sup] by blast
      next
        case B
        with Some True r m1 have "in_thinking t key chat sess cfg ?b1 hist = (ret, b2, hist', evs)"
          by (auto simp: parse_token_def)
        moreover from B have "isInThinking b0" by (simp add: push_token_def)
        ultimately show ?thesis using in_thinking_well[OF w] by blast
      next
        case C
        then have ni: "\<not> isInThinking b0" by (simp add: push_token_def)
        from C Some True r m1 consider
            (c1) "(ret, b2, hist', evs) = response_started chat sess cfg ?b1 hist"
          | (c2) "(ret, b2, hist', evs) = response_ended cfg ?b1 hist"
          | (c3) "b2 = ?b1" "evs = []"
          by (auto simp: parse_token_def split: if_splits)
        then show ?thesis
        proof cases
          case c1
          then show ?thesis
            by (intro plain[OF ni]) (use ni in \<open>auto simp: response_started_def Let_def push_token_def split: if_splits\<close>)
        next
          case c2
          then show ?thesis
            by (intro plain[OF ni]) (use ni in \<open>auto simp: response_ended_def Let_def push_token_def split: if_splits\<close>)
        next
          case c3
          then show ?thesis
            by (intro plain[OF ni]) (use ni in \<open>auto simp: push_token_def\<close>)
        qed
      qed
    qed
  qed
qed

section \<open>Properties of the socket chat\<close>

lemma well_quiet:
  assumes "well b tr" and "\<forall>e \<in> set evs. \<not> is_move e \<and> pending_of e = []"
  shows "well b (tr @ evs)"
proof -
  from assms(1) have "moves_ok (fullContent b) tr" unfolding well_def by blast
  then have "moves_ok (fullContent b @ []) (tr @ evs)"
    using assms(2) by (intro moves_ok_extend) auto
  then have m: "moves_ok (fullContent b) (tr @ evs)" by simp
  have q: "pending_contents evs = []" using assms(2) by (simp add: pending_contents_quiet)
  show ?thesis using assms q m unfolding well_def by auto
qed

lemma chat_inv_emit:
  assumes "chat_inv n0 key g" and "\<not> is_move (room, ev)" and "pending_of (room, ev) = []"
  shows "chat_inv n0 key (emit room ev g)"
proof -
  from assms(1) obtain b where b: "tokenBuffers g key = Some b"
      "model b = getModelNameFromId (context_modelId g key)" "n0 \<le> length (emitted g)"
      "well b (drop n0 (emitted g))"
    unfolding chat_inv_def by blast
  have "well b (drop n0 (emitted g) @ [(room, ev)])"
    using b(4) assms(2,3) by (intro well_quiet) auto
  with b show ?thesis
    unfolding chat_inv_def by (simp add: emit_def context_modelId_def)
qed

lemma chat_inv_cong:
  assumes "chat_inv n0 key g" and "tokenBuffers g' = tokenBuffers g"
      and "globalStreamingSessions g' = globalStreamingSessions g" and "emitted g' = emitted g"
  shows "chat_inv n0 key g'"
  using assms unfolding chat_inv_def by (simp add: context_modelId_def)

lemma switch_model_same: "model b = M \<Longrightarrow> switch_model M b = b"
  by (simp add: switch_model_def)

lemma process_inv:
  assumes inv: "chat_inv n0 key g"
      and mid: "getModelNameFromId modelId = getModelNameFromId (context_modelId g key)"
  shows "chat_inv n0 key (snd (processTokenStreamThinking now t key modelId room chat sess g))"
proof (cases "t = []")
  case True
  with inv show ?thesis by (simp add: processTokenStreamThinking_def)
next
  case False
  from inv obtain b where b: "tokenBuffers g key = Some b"
      "model b = getModelNameFromId (context_modelId g key)" "n0 \<le> length (emitted g)"
      "well b (drop n0 (emitted g))"
    unfolding chat_inv_def by blast
  obtain ret b2 hist evs where
    p: "parse_token now t key chat sess (push_token t b) (globalChatHistory g key) = (ret, b2, hist, evs)"
    by (cases "parse_token now t key chat sess (push_token t b) (globalChatHistory g key)") auto
  from parse_token_well[OF b(4) p, of room]
  have w: "well b2 (drop n0 (emitted g) @ map (Pair room) evs)" and m: "model b2 = model b" by blast+
  have sw: "switch_model (getModelNameFromId modelId) b = b"
    using b(2) mid by (simp add: switch_model_same)
  have g': "snd (processTokenStreamThinking now t key modelId room chat sess g)
        = g\<lparr> tokenBuffers := (tokenBuffers g)(key \<mapsto> b2),
               globalChatHistory := (globalChatHistory g)(key := hist),
               emitted := emitted g @ map (Pair room) evs \<rparr>"
    using False b(1) p sw by (simp add: processTokenStreamThinking_def Let_def)
  show ?thesis
    unfolding chat_inv_def g' using w m b(2,3) by (simp add: context_modelId_def)
qed

lemma handle_message_key:
  "finalUserId (fst (handle_message now m cl g)) = finalUserId cl
   \<and> finalSessionId (fst (handle_message now m cl g)) = finalSessionId cl"
  by (simp add: handle_message_def Let_def)

lemma complete_chat_inv:
  assumes "chat_inv n0 key g"
  shows "chat_inv n0 key (complete_chat m cl g)"
  unfolding complete_chat_def Let_def
  by (rule chat_inv_emit, rule chat_inv_cong[OF assms])
     (auto simp: is_move_def pending_of_def split: option.splits)

lemma record_token_inv:
  assumes "chat_inv n0 key g"
  shows "chat_inv n0 key (record_token m cl text g)"
  unfolding record_token_def Let_def
  by (rule chat_inv_cong[OF assms]) auto

lemma stream_token_inv:
  assumes "chat_inv n0 (finalUserId cl @ ''_'' @ finalSessionId cl) g"
  shows "chat_inv n0 (finalUserId cl @ ''_'' @ finalSessionId cl) (stream_token now cl text g)"
proof -
  let ?key = "finalUserId cl @ ''_'' @ finalSessionId cl"
  let ?p = "processTokenStreamThinking now text ?key (context_modelId g ?key) (roomId cl)
                       (finalChatId cl) (finalSessionId cl) g"
  have i3: "chat_inv n0 ?key (snd ?p)"
    by (rule process_inv[OF assms]) simp
  have i4: "chat_inv n0 ?key (emit (roomId cl)
                          (Stream (fst ?p) (finalChatId cl) (finalSessionId cl) None False
                             (finalInstanceId cl) (Some (messageCount cl))) (snd ?p))"
    by (rule chat_inv_emit[OF i3]) (simp_all add: is_move_def pending_of_def)
  have "stream_token now cl text g =
          (if fst ?p \<noteq> [] \<and> trim (fst ?p) \<noteq> []
           then emit (roomId cl)
                          (Stream (fst ?p) (finalChatId cl) (finalSessionId cl) None False
                             (finalInstanceId cl) (Some (messageCount cl))) (snd ?p)
           else snd ?p)"
    unfolding stream_token_def Let_def by (simp add: case_prod_beta)
  with i3 i4 show ?thesis by presburger
qed

lemma handle_inv:
  assumes inv: "chat_inv n0 (finalUserId cl @ ''_'' @ finalSessionId cl) g"
  shows "chat_inv n0 (finalUserId cl @ ''_'' @ finalSessionId cl) (snd (handle_message now m cl g))"
proof -
  let ?cl = "cl\<lparr> messageCount := messageCount cl + 1 \<rparr>"
  have k: "finalUserId ?cl @ ''_'' @ finalSessionId ?cl = finalUserId cl @ ''_'' @ finalSessionId cl"
    by simp
  have a: "chat_inv n0 (finalUserId cl @ ''_'' @ finalSessionId cl) (complete_chat m ?cl g)"
    using inv by (rule complete_chat_inv)
  have "chat_inv n0 (finalUserId ?cl @ ''_'' @ finalSessionId ?cl)
          (stream_token now ?cl (responseContent m) (record_token m ?cl (responseContent m) g))"
    by (rule stream_token_inv, rule record_token_inv) (simp only: k inv)
  then have b: "chat_inv n0 (finalUserId cl @ ''_'' @ finalSessionId cl)
          (stream_token now ?cl (responseContent m) (record_token m ?cl (responseContent m) g))"
    by (simp only: k)
  show ?thesis
    using inv a b by (simp add: handle_message_def Let_def)
qed

lemma run_inv:
  assumes "chat_inv n0 (finalUserId cl @ ''_'' @ finalSessionId cl) g"
  shows "chat_inv n0 (finalUserId cl @ ''_'' @ finalSessionId cl) (snd (run_chat now msgs cl g))"
  using assms
proof (induction msgs arbitrary: cl g)
  case Nil
  then show ?case by simp
next
  case (Cons m msgs)
  obtain cl1 g1 where h: "handle_message now m cl g = (cl1, g1)"
    by (cases "handle_message now m cl g")
  from handle_message_key[of now m cl g] h
  have k: "finalUserId cl1 = finalUserId cl" "finalSessionId cl1 = finalSessionId cl" by simp_all
  from handle_inv[OF Cons.prems, of now m] h
  have "chat_inv n0 (finalUserId cl1 @ ''_'' @ finalSessionId cl1) g1" by (simp add: k)
  from Cons.IH[OF this] show ?case by (simp add: h k)
qed

lemma well_new_buffer: "well (new_buffer M) []"
  by (simp add: well_def new_buffer_def moves_ok_none)

lemma model_new_buffer: "model (new_buffer M) = M"
  by (simp add: new_buffer_def)

text \<open>
  Claim C6, as amended. A chat starts with the fresh parser buffer that
  \<^verbatim>\<open>send-chat-message\<close> installs and handles any sequence of messages. Whenever the events
  it has emitted hold a \<^verbatim>\<open>move_to_thinking\<close> with content \<open>X\<close>, then \<open>X\<close> is not empty, the
  concatenation of the tokens received for the chat contains \<open>X\<close> as a contiguous
  substring, the event's \<^verbatim>\<open>pendingTokens\<close> are exactly the texts of the pending-thinking
  \<^verbatim>\<open>stream\<close> events emitted before it, in order, and the next event is
  \<^verbatim>\<open>thinking_complete\<close> for the same chat in the same room.
\<close>

theorem move_to_thinking_sound:
  assumes "tokenBuffers g (finalUserId cl @ ''_'' @ finalSessionId cl) =
             Some (new_buffer (getModelNameFromId
                     (context_modelId g (finalUserId cl @ ''_'' @ finalSessionId cl))))"
      and "drop (length (emitted g)) (emitted (snd (run_chat now msgs cl g)))
             = pre @ (rm, MoveToThinking X c s mid pend) # post"
  shows "X \<noteq> []
       \<and> js_includes (concat (tokens (the (tokenBuffers (snd (run_chat now msgs cl g))
                                           (finalUserId cl @ ''_'' @ finalSessionId cl))))) X
       \<and> pend = pending_contents pre
       \<and> (\<exists>post'. post = (rm, ThinkingComplete c s) # post')"
proof -
  let ?key = "finalUserId cl @ ''_'' @ finalSessionId cl"
  let ?g' = "snd (run_chat now msgs cl g)"
  have "chat_inv (length (emitted g)) ?key g"
    unfolding chat_inv_def using assms(1) by (simp add: well_new_buffer model_new_buffer)
  then have "chat_inv (length (emitted g)) ?key ?g'" by (rule run_inv)
  then obtain b where b: "tokenBuffers ?g' ?key = Some b"
      "well b (drop (length (emitted g)) (emitted ?g'))"
    unfolding chat_inv_def by blast
  from b(2) have m: "moves_ok (fullContent b) (drop (length (emitted g)) (emitted ?g'))"
    and cat: "fullContent b = concat (tokens b)"
    unfolding well_def by blast+
  from m assms(2) have "X \<noteq> [] \<and> sublist X (fullContent b) \<and> pend = pending_contents pre
          \<and> (\<exists>post'. post = (rm, ThinkingComplete c s) # post')"
    unfolding moves_ok_def by blast
  moreover have "tokens (the (tokenBuffers ?g' ?key)) = tokens b" using b(1) by simp
  ultimately show ?thesis
    using cat by (simp add: js_includes_sublist)
qed





text \<open>
  Claim C10, evaluated on the code. A token message whose \<^verbatim>\<open>data\<close> is the empty string
  falls through to \<^verbatim>\<open>JSON.stringify(message)\<close>, and the JSON text is emitted as a
  \<^verbatim>\<open>stream\<close> event. And after a token that holds an empty \<^verbatim>\<open><think></think>\<close> pair, a
  token of one space makes the parser return the whole content so far, which is emitted
  as a \<^verbatim>\<open>stream\<close> event.
\<close>

theorem blank_token_streamed:
  "b_data (token_message [] (Some ''1'')) = Some []
   \<and> emitted (snd (handle_message ''1700000000001'' (token_message [] (Some ''1'')) u1_closure live_state))
       = [(''chat_u1_19_1'',
           Stream ''{\"type\":\"token\",\"data\":\"\",\"chat_id\":\"1\"}'' ''1'' ''19'' None False None (Some 1))]
   \<and> trim '' '' = []
   \<and> emitted (snd (run_chat ''1700000000001'' (u1_tokens [''<think></think>'', ''Hi'', '' ''])
                      u1_closure live_state))
       = [(''chat_u1_19_1'', Stream ''Hi'' ''1'' ''19'' None False None (Some 2)),
          (''chat_u1_19_1'', Stream ''Hi '' ''1'' ''19'' None False None (Some 3))]"
  by code_simp

text \<open>
  Counterexample to C6 as stated: the thinking region holds the tokens \<^verbatim>\<open>a\<close>, one space
  and \<^verbatim>\<open>b\<close>. The space is not streamed, so the \<^verbatim>\<open>stream\<close> events before the move carry
  \<^verbatim>\<open>a\<close> and \<^verbatim>\<open>b\<close>, whose concatenation does not contain the moved content \<^verbatim>\<open>a b\<close>.
\<close>

theorem whitespace_in_thinking_counterexample:
  "emitted (snd (run_chat ''1700000000001'' (u1_tokens [''<think>'', ''a'', '' '', ''b'', ''</think>''])
                   u1_closure live_state))
     = [(''chat_u1_19_1'', Stream ''a'' ''1'' ''19'' (Some ''thinking_u1_19_1700000000001'') True None None),
        (''chat_u1_19_1'', Stream ''b'' ''1'' ''19'' (Some ''thinking_u1_19_1700000000001'') True None None),
        (''chat_u1_19_1'', MoveToThinking ''a b'' ''1'' ''19'' (Some ''thinking_u1_19_1700000000001'')
                             [''a'', ''b'']),
        (''chat_u1_19_1'', ThinkingComplete ''1'' ''19'')]
   \<and> \<not> js_includes (''a'' @ ''b'') ''a b''"
  by code_simp

lemma scenario2_trace:
  "emitted (snd (run_chat ''1700000000001''
      (u1_tokens [''<think>'', ''why'', ''?'', ''</think>'', ''Because'']) u1_closure live_state))
   = [(''chat_u1_19_1'', Stream ''why'' ''1'' ''19'' (Some ''thinking_u1_19_1700000000001'') True None None),
      (''chat_u1_19_1'', Stream ''?'' ''1'' ''19'' (Some ''thinking_u1_19_1700000000001'') True None None)]
     @ (''chat_u1_19_1'', MoveToThinking ''why?'' ''1'' ''19'' (Some ''thinking_u1_19_1700000000001'')
                             [''why'', ''?''])
     # [(''chat_u1_19_1'', ThinkingComplete ''1'' ''19''),
        (''chat_u1_19_1'', Stream ''Because'' ''1'' ''19'' None False None (Some 5))]"
  by code_simp

lemma live_state_fresh:
  "tokenBuffers live_state (finalUserId u1_closure @ ''_'' @ finalSessionId u1_closure) =
             Some (new_buffer (getModelNameFromId
                     (context_modelId live_state (finalUserId u1_closure @ ''_'' @ finalSessionId u1_closure))))"
  "emitted live_state = []"
  by code_simp+

lemma scenario2_tokens:
  "concat (tokens (the (tokenBuffers (snd (run_chat ''1700000000001''
      (u1_tokens [''<think>'', ''why'', ''?'', ''</think>'', ''Because'']) u1_closure live_state))
       (finalUserId u1_closure @ ''_'' @ finalSessionId u1_closure)))) = ''<think>why?</think>Because''"
  by code_simp

text \<open>
  Witness for C6: the tokens \<^verbatim>\<open><think>\<close>, \<^verbatim>\<open>why\<close>, \<^verbatim>\<open>?\<close>, \<^verbatim>\<open></think>\<close>, \<^verbatim>\<open>Because\<close>
  of \<open>u1\<close>'s chat.
\<close>

theorem move_to_thinking_sound_witness:
  "tokenBuffers live_state (finalUserId u1_closure @ ''_'' @ finalSessionId u1_closure) =
             Some (new_buffer (getModelNameFromId
                     (context_modelId live_state (finalUserId u1_closure @ ''_'' @ finalSessionId u1_closure))))
   \<and> drop (length (emitted live_state)) (emitted (snd (run_chat ''1700000000001''
            (u1_tokens [''<think>'', ''why'', ''?'', ''</think>'', ''Because'']) u1_closure live_state)))
       = [(''chat_u1_19_1'', Stream ''why'' ''1'' ''19'' (Some ''thinking_u1_19_1700000000001'') True None None),
          (''chat_u1_19_1'', Stream ''?'' ''1'' ''19'' (Some ''thinking_u1_19_1700000000001'') True None None)]
         @ (''chat_u1_19_1'', MoveToThinking ''why?'' ''1'' ''19'' (Some ''thinking_u1_19_1700000000001'')
                             [''why'', ''?''])
         # [(''chat_u1_19_1'', ThinkingComplete ''1'' ''19''),
            (''chat_u1_19_1'', Stream ''Because'' ''1'' ''19'' None False None (Some 5))]
   \<and> ''why?'' \<noteq> []
   \<and> js_includes ''<think>why?</think>Because'' ''why?''
   \<and> [''why'', ''?''] = pending_contents
         [(''chat_u1_19_1'', Stream ''why'' ''1'' ''19'' (Some ''thinking_u1_19_1700000000001'') True None None),
          (''chat_u1_19_1'', Stream ''?'' ''1'' ''19'' (Some ''thinking_u1_19_1700000000001'') True None None)]"
proof -
  have d: "drop (length (emitted live_state)) (emitted (snd (run_chat ''1700000000001''
            (u1_tokens [''<think>'', ''why'', ''?'', ''</think>'', ''Because'']) u1_closure live_state)))
       = [(''chat_u1_19_1'', Stream ''why'' ''1'' ''19'' (Some ''thinking_u1_19_1700000000001'') True None None),
          (''chat_u1_19_1'', Stream ''?'' ''1'' ''19'' (Some ''thinking_u1_19_1700000000001'') True None None)]
         @ (''chat_u1_19_1'', MoveToThinking ''why?'' ''1'' ''19'' (Some ''thinking_u1_19_1700000000001'')
                             [''why'', ''?''])
         # [(''chat_u1_19_1'', ThinkingComplete ''1'' ''19''),
            (''chat_u1_19_1'', Stream ''Because'' ''1'' ''19'' None False None (Some 5))]"
    unfolding live_state_fresh(2) scenario2_trace by simp
  from move_to_thinking_sound[OF live_state_fresh(1) d]
  show ?thesis
    unfolding scenario2_tokens using live_state_fresh(1) d by blast
qed

end
